theory Spec2Isabelle
  imports Complex_Main "HOL-Library.AList"
begin

section \<open>JavaScript values\<close>

text \<open>
  The values the handlers compute with: what \<^verbatim>\<open>JSON.parse\<close> returns, what is stored in
  the table and what is serialised into a response body. An object is the association
  list of its own properties; for a parsed body the list is in the order in which
  \<^verbatim>\<open>Object.keys\<close> enumerates them. \<open>JUndefined\<close> is the value of a property read that
  finds nothing.
\<close>

datatype json =
    JUndefined
  | JNull
  | JBool bool
  | JNum rat
  | JStr string
  | JArr "json list"
  | JObj "(string \<times> json) list"

type_synonym item = "(string \<times> json) list"

text \<open>The table of the store: the items, each under the string value of its \<^verbatim>\<open>pk\<close>.\<close>

type_synonym table = "(string \<times> item) list"

text \<open>A thrown error: \<^verbatim>\<open>err.code\<close> (undefined for a \<^verbatim>\<open>SyntaxError\<close>) and \<^verbatim>\<open>err.message\<close>.\<close>

datatype js_error = JsError (err_code: "string option") (err_message: string)

text \<open>\<^verbatim>\<open>!v\<close> is \<open>\<not> truthy v\<close>.\<close>

fun truthy :: "json \<Rightarrow> bool" where
  "truthy JUndefined = False"
| "truthy JNull = False"
| "truthy (JBool b) = b"
| "truthy (JNum n) = (n \<noteq> 0)"
| "truthy (JStr s) = (s \<noteq> [])"
| "truthy (JArr xs) = True"
| "truthy (JObj kvs) = True"

fun typeof :: "json \<Rightarrow> string" where
  "typeof JUndefined = ''undefined''"
| "typeof JNull = ''object''"
| "typeof (JBool b) = ''boolean''"
| "typeof (JNum n) = ''number''"
| "typeof (JStr s) = ''string''"
| "typeof (JArr xs) = ''object''"
| "typeof (JObj kvs) = ''object''"

text \<open>The decimal rendering of an index, as the template literal \<^verbatim>\<open>`${i}`\<close> produces it.\<close>

fun show_nat :: "nat \<Rightarrow> string" where
  "show_nat n =
     (if n < 10 then [''0123456789'' ! n]
      else show_nat (n div 10) @ [''0123456789'' ! (n mod 10)])"

declare show_nat.simps [simp del]

text \<open>
  The own enumerable properties of a value whose \<^verbatim>\<open>typeof\<close> is \<^verbatim>\<open>'object'\<close>: the entries
  of an object, the elements of an array under their indices.
\<close>

fun own_entries :: "json \<Rightarrow> (string \<times> json) list" where
  "own_entries (JObj kvs) = kvs"
| "own_entries (JArr xs) = zip (map show_nat [0..<length xs]) xs"
| "own_entries v = []"

definition Object_keys :: "json \<Rightarrow> string list" where
  "Object_keys v = map fst (own_entries v)"

text \<open>
  A property read \<^verbatim>\<open>v[k]\<close> (or \<^verbatim>\<open>v.k\<close>) with a string key. Only own properties and an
  array's \<^verbatim>\<open>length\<close> are modelled: the handlers read \<^verbatim>\<open>name\<close> and the keys that
  \<^verbatim>\<open>Object.keys\<close> returned, and neither prototype has a \<^verbatim>\<open>name\<close>.
\<close>

definition get_prop :: "json \<Rightarrow> string \<Rightarrow> json" where
  "get_prop v k =
     (case map_of (own_entries v) k of
        Some x \<Rightarrow> x
      | None \<Rightarrow>
          (case v of
             JArr xs \<Rightarrow> if k = ''length'' then JNum (of_nat (length xs)) else JUndefined
           | _ \<Rightarrow> JUndefined))"

text \<open>
  Defining a property in an object literal, or assigning \<^verbatim>\<open>obj[k] = v\<close>: an existing
  key keeps its place and takes the new value, a new key goes to the end. (JavaScript
  enumerates integer-like keys before the others; the place of a property in the list
  plays no part below, only the value found under a key does.)
\<close>

definition set_prop :: "('k \<times> 'v) list \<Rightarrow> 'k \<Rightarrow> 'v \<Rightarrow> ('k \<times> 'v) list" where
  "set_prop obj k v = AList.update k v obj"

text \<open>The spread \<^verbatim>\<open>...src\<close> inside an object literal: each own property of \<open>src\<close>, in order.\<close>

definition spread :: "item \<Rightarrow> json \<Rightarrow> item" where
  "spread obj src = fold (\<lambda>(k, v) acc. set_prop acc k v) (own_entries src) obj"

text \<open>\<^verbatim>\<open>xs.join(sep)\<close> on an array of strings.\<close>

fun join :: "string \<Rightarrow> string list \<Rightarrow> string" where
  "join sep [] = []"
| "join sep [x] = x"
| "join sep (x # y # ys) = x @ sep @ join sep (y # ys)"

section \<open>The environment of one invocation\<close>

text \<open>
  What an invocation reads from outside the two source files: the JSON library, the
  system clock, the identifier sources and a fault of the store client.
  \<^item> \<open>JSON_parse s\<close> is \<open>Inr v\<close> or \<open>Inl m\<close>, a \<^verbatim>\<open>SyntaxError\<close> with message \<open>m\<close>;
  \<^item> \<open>clock n\<close> is the epoch time in milliseconds of the \<open>n\<close>-th clock read of the
    invocation (\<^verbatim>\<open>new Date()\<close>, \<^verbatim>\<open>Date.now()\<close>), counted from 0;
  \<^item> \<open>randomUUID\<close> is the result of \<^verbatim>\<open>require('crypto').randomUUID()\<close>, \<open>None\<close> when
    that throws; \<open>Math_random36\<close> is \<^verbatim>\<open>Math.random().toString(36)\<close>;
  \<^item> \<open>store_fault\<close> is the error the store client raises for a reason of its own
    (throughput, network, configuration such as an unset \<^verbatim>\<open>TABLE_NAME\<close>), if any.
\<close>

record env =
  JSON_parse :: "string \<Rightarrow> string + json"
  JSON_stringify :: "json \<Rightarrow> string"
  clock :: "nat \<Rightarrow> int"
  toISOString :: "int \<Rightarrow> string"
  randomUUID :: "string option"
  Math_random36 :: string
  store_fault :: "js_error option"

record event =
  pathParameters :: "(string \<times> string) list option"
  event_body :: "string option"

text \<open>A response; \<open>headers\<close> is \<open>None\<close> when the returned object has no such property.\<close>

record response =
  statusCode :: nat
  headers :: "(string \<times> string) list option"
  body :: string

section \<open>The store client\<close>

text \<open>
  Modelled from the spec: the backing store, which is the AWS SDK document client
  \<^verbatim>\<open>ddb\<close> and the table behind it, neither of them part of the sources. The spec gives
  each call its outcomes: success, the conflict of the call's condition, or another
  failure. Here the table is an association list from the key to the item, the conflict
  is the error with code \<^verbatim>\<open>ConditionalCheckFailedException\<close>, and another failure is
  either \<open>store_fault\<close> of the environment or the rejection of a request that the store
  cannot read.

  The parameters of the three conditional calls, as the handlers build them
  (\<^verbatim>\<open>TableName\<close> left out: there is one table):
\<close>

record put_params =
  put_Item :: item
  put_ConditionExpression :: "string option"

record update_params =
  upd_Key :: string
  upd_UpdateExpression :: string
  upd_ExpressionAttributeNames :: "(string \<times> string) list"
  upd_ExpressionAttributeValues :: "(string \<times> json) list"
  upd_ConditionExpression :: "string option"

record delete_params =
  del_Key :: string
  del_ConditionExpression :: "string option"

definition conditional_check_failed :: js_error where
  "conditional_check_failed =
     JsError (Some ''ConditionalCheckFailedException'') ''The conditional request failed''"

definition validation_exception :: js_error where
  "validation_exception = JsError (Some ''ValidationException'') ''Invalid request''"

text \<open>
  Modelled from the spec: the existence preconditions. The two condition expressions the
  handlers use, read against the item currently under the key (every stored item has its
  \<^verbatim>\<open>pk\<close>). \<open>None\<close>: an expression this model does not read.
\<close>

definition condition_holds :: "string option \<Rightarrow> item option \<Rightarrow> bool option" where
  "condition_holds c cur =
     (case c of
        None \<Rightarrow> Some True
      | Some s \<Rightarrow>
          if s = ''attribute_exists(pk)'' then Some (cur \<noteq> None)
          else if s = ''attribute_not_exists(pk)'' then Some (cur = None)
          else None)"

text \<open>\<^verbatim>\<open>s.split(sep)\<close> with a non-empty separator; \<open>acc\<close> is the current piece, reversed.\<close>

function split_acc :: "string \<Rightarrow> string \<Rightarrow> string \<Rightarrow> string list" where
  "split_acc sep acc [] = [rev acc]"
| "split_acc sep acc (c # cs) =
     (if sep \<noteq> [] \<and> take (length sep) (c # cs) = sep
      then rev acc # split_acc sep [] (drop (length sep) (c # cs))
      else split_acc sep (c # acc) cs)"
  by pat_completeness auto
termination
  by (relation "measure (\<lambda>(sep, acc, s). length s)") (auto simp: neq_Nil_conv)

definition split_on :: "string \<Rightarrow> string \<Rightarrow> string list" where
  "split_on sep s = split_acc sep [] s"

text \<open>
  Modelled from the spec: the field set of a partial update, as the store reads it from
  the request. One clause \<^verbatim>\<open>#name = :value\<close> of a \<^verbatim>\<open>SET\<close> expression is resolved
  through the two placeholder maps to the attribute it assigns and the value it assigns;
  the expression is \<^verbatim>\<open>SET\<close> and its clauses, separated by a comma and a space.
\<close>

definition resolve_clause ::
  "(string \<times> string) list \<Rightarrow> (string \<times> json) list \<Rightarrow> string \<Rightarrow> (string \<times> json) option" where
  "resolve_clause names vals c =
     (case split_on '' = '' c of
        [p, v] \<Rightarrow>
          (case (map_of names p, map_of vals v) of
             (Some a, Some x) \<Rightarrow> Some (a, x)
           | _ \<Rightarrow> None)
      | _ \<Rightarrow> None)"

definition parse_update :: "update_params \<Rightarrow> (string \<times> json) list option" where
  "parse_update p =
     (if take 4 (upd_UpdateExpression p) = ''SET ''
      then those (map (resolve_clause (upd_ExpressionAttributeNames p)
                         (upd_ExpressionAttributeValues p))
                    (split_on '', '' (drop 4 (upd_UpdateExpression p))))
      else None)"

text \<open>
  Modelled from the spec: the store accepts a list of assignments when no attribute is
  assigned twice and none is the key attribute, and applies them in order.
\<close>

definition valid_assignments :: "(string \<times> json) list \<Rightarrow> bool" where
  "valid_assignments as = (distinct (map fst as) \<and> ''pk'' \<notin> set (map fst as))"

definition apply_assignments :: "(string \<times> json) list \<Rightarrow> item \<Rightarrow> item" where
  "apply_assignments as it = fold (\<lambda>(a, x) acc. AList.update a x acc) as it"

text \<open>
  Modelled from the spec: \<^verbatim>\<open>put(item, conditionNotExists)\<close>, called as
  \<^verbatim>\<open>ddb.put(params).promise()\<close>. The table's key is the string attribute \<^verbatim>\<open>pk\<close> of
  the item; the item replaces what was under that key.
\<close>

definition ddb_put :: "env \<Rightarrow> put_params \<Rightarrow> table \<Rightarrow> (js_error + unit) \<times> table" where
  "ddb_put env p tbl =
     (case store_fault env of
        Some e \<Rightarrow> (Inl e, tbl)
      | None \<Rightarrow>
          (case map_of (put_Item p) ''pk'' of
             Some (JStr k) \<Rightarrow>
               (case condition_holds (put_ConditionExpression p) (map_of tbl k) of
                  None \<Rightarrow> (Inl validation_exception, tbl)
                | Some False \<Rightarrow> (Inl conditional_check_failed, tbl)
                | Some True \<Rightarrow> (Inr (), AList.update k (put_Item p) tbl))
           | _ \<Rightarrow> (Inl validation_exception, tbl)))"

text \<open>
  Modelled from the spec: \<^verbatim>\<open>get(key)\<close>, called as \<^verbatim>\<open>ddb.get(params).promise()\<close>. The
  result is \<^verbatim>\<open>out.Item\<close>, \<open>None\<close> when the key is absent.
\<close>

definition ddb_get :: "env \<Rightarrow> string \<Rightarrow> table \<Rightarrow> js_error + item option" where
  "ddb_get env k tbl =
     (case store_fault env of
        Some e \<Rightarrow> Inl e
      | None \<Rightarrow> Inr (map_of tbl k))"

text \<open>
  Modelled from the spec: \<^verbatim>\<open>update(key, fieldSet, conditionExists)\<close>, called as
  \<^verbatim>\<open>ddb.update(params).promise()\<close> with \<^verbatim>\<open>ReturnValues: 'ALL_NEW'\<close>. The expression
  is validated, then the condition is checked against the current item, then the
  assignments are applied (to a new item holding only the key when none was there);
  \<^verbatim>\<open>out.Attributes\<close> is the item after the update.
\<close>

definition ddb_update :: "env \<Rightarrow> update_params \<Rightarrow> table \<Rightarrow> (js_error + item) \<times> table" where
  "ddb_update env p tbl =
     (case store_fault env of
        Some e \<Rightarrow> (Inl e, tbl)
      | None \<Rightarrow>
          (case parse_update p of
             None \<Rightarrow> (Inl validation_exception, tbl)
           | Some as \<Rightarrow>
               if \<not> valid_assignments as then (Inl validation_exception, tbl)
               else
                 (case condition_holds (upd_ConditionExpression p) (map_of tbl (upd_Key p)) of
                    None \<Rightarrow> (Inl validation_exception, tbl)
                  | Some False \<Rightarrow> (Inl conditional_check_failed, tbl)
                  | Some True \<Rightarrow>
                      (let cur = (case map_of tbl (upd_Key p) of
                                    Some it \<Rightarrow> it
                                  | None \<Rightarrow> [(''pk'', JStr (upd_Key p))]);
                           new = apply_assignments as cur
                       in (Inr new, AList.update (upd_Key p) new tbl)))))"

text \<open>
  Modelled from the spec: \<^verbatim>\<open>delete(key, conditionExists)\<close>, called as
  \<^verbatim>\<open>ddb.delete(params).promise()\<close>.
\<close>

definition ddb_delete :: "env \<Rightarrow> delete_params \<Rightarrow> table \<Rightarrow> (js_error + unit) \<times> table" where
  "ddb_delete env p tbl =
     (case store_fault env of
        Some e \<Rightarrow> (Inl e, tbl)
      | None \<Rightarrow>
          (case condition_holds (del_ConditionExpression p) (map_of tbl (del_Key p)) of
             None \<Rightarrow> (Inl validation_exception, tbl)
           | Some False \<Rightarrow> (Inl conditional_check_failed, tbl)
           | Some True \<Rightarrow> (Inr (), AList.delete (del_Key p) tbl)))"

text \<open>
  Modelled from the spec: \<^verbatim>\<open>scan(limit)\<close>, called as \<^verbatim>\<open>ddb.scan(params).promise()\<close>:
  at most \<open>limit\<close> items, in the table's order, and their count.
\<close>

definition ddb_scan :: "env \<Rightarrow> nat \<Rightarrow> table \<Rightarrow> js_error + (nat \<times> item list)" where
  "ddb_scan env limit tbl =
     (case store_fault env of
        Some e \<Rightarrow> Inl e
      | None \<Rightarrow> Inr (length (take limit tbl), map snd (take limit tbl)))"

section \<open>The item service\<close>

subsection \<open>Response formatter and identifier generator\<close>

definition cors_headers :: "(string \<times> string) list" where
  "cors_headers =
     [(''Content-Type'', ''application/json''),
      (''Access-Control-Allow-Origin'', ''*''),
      (''Access-Control-Allow-Headers'', ''Content-Type,Authorization''),
      (''Access-Control-Allow-Methods'', ''GET,POST,PUT,DELETE,OPTIONS'')]"

definition res :: "env \<Rightarrow> nat \<Rightarrow> json \<Rightarrow> response" where
  "res env status data =
     \<lparr>statusCode = status, headers = Some cors_headers, body = JSON_stringify env data\<rparr>"

text \<open>The payload \<^verbatim>\<open>{ ok: false, error: msg }\<close>.\<close>

definition failure :: "string \<Rightarrow> json" where
  "failure msg = JObj [(''ok'', JBool False), (''error'', JStr msg)]"

definition randomId :: "env \<Rightarrow> string" where
  "randomId env =
     (case randomUUID env of
        Some u \<Rightarrow> u
      | None \<Rightarrow> ''id-'' @ drop 2 (Math_random36 env))"

subsection \<open>Reading the request\<close>

text \<open>\<^verbatim>\<open>event.pathParameters?.id\<close>; \<open>None\<close> is \<^verbatim>\<open>undefined\<close>.\<close>

definition path_id :: "event \<Rightarrow> string option" where
  "path_id ev =
     (case pathParameters ev of
        None \<Rightarrow> None
      | Some ps \<Rightarrow> map_of ps ''id'')"

text \<open>
  \<^verbatim>\<open>event.body ? JSON.parse(event.body) : {}\<close>: an absent or empty body is the empty
  object; a \<^verbatim>\<open>SyntaxError\<close> of the parser is thrown to the handler's \<^verbatim>\<open>catch\<close>.
\<close>

definition parse_body :: "env \<Rightarrow> event \<Rightarrow> js_error + json" where
  "parse_body env ev =
     (case event_body ev of
        None \<Rightarrow> Inr (JObj [])
      | Some s \<Rightarrow>
          if s = [] then Inr (JObj [])
          else (case JSON_parse env s of
                  Inl m \<Rightarrow> Inl (JsError None m)
                | Inr v \<Rightarrow> Inr v))"

text \<open>The test \<^verbatim>\<open>!body || typeof body !== 'object'\<close>.\<close>

definition invalid_body :: "json \<Rightarrow> bool" where
  "invalid_body b = (\<not> truthy b \<or> typeof b \<noteq> ''object'')"

subsection \<open>POST /items\<close>

text \<open>
  The object literal of \<^verbatim>\<open>createItem\<close>, property by property in the order written:
  \<^verbatim>\<open>pk\<close>, \<^verbatim>\<open>name\<close>, the spread of the body, \<^verbatim>\<open>createdAt\<close>, \<^verbatim>\<open>updatedAt\<close>. The two
  timestamps are two reads of the clock.
\<close>

definition new_item :: "env \<Rightarrow> json \<Rightarrow> item" where
  "new_item env b =
     set_prop
       (set_prop
          (spread [(''pk'', JStr (randomId env)), (''name'', get_prop b ''name'')] b)
          ''createdAt'' (JStr (toISOString env (clock env 0))))
       ''updatedAt'' (JStr (toISOString env (clock env 1)))"

definition createItem :: "env \<Rightarrow> event \<Rightarrow> table \<Rightarrow> response \<times> table" where
  \<open>createItem env ev tbl =
     (case parse_body env ev of
        Inl err \<Rightarrow> (res env 500 (failure (err_message err)), tbl)
      | Inr b \<Rightarrow>
          if invalid_body b then (res env 400 (failure ''Invalid JSON body''), tbl)
          else if \<not> truthy (get_prop b ''name'')
          then (res env 400 (failure ''Field "name" is required''), tbl)
          else
            (let item = new_item env b
             in (case ddb_put env
                        \<lparr>put_Item = item,
                         put_ConditionExpression = Some ''attribute_not_exists(pk)''\<rparr> tbl of
                   (Inl err, tbl') \<Rightarrow> (res env 500 (failure (err_message err)), tbl')
                 | (Inr u, tbl') \<Rightarrow>
                     (res env 201 (JObj [(''ok'', JBool True), (''item'', JObj item)]), tbl'))))\<close>

subsection \<open>GET /items/{id}\<close>

definition getItem :: "env \<Rightarrow> event \<Rightarrow> table \<Rightarrow> response \<times> table" where
  "getItem env ev tbl =
     (case path_id ev of
        None \<Rightarrow> (res env 400 (failure ''Missing id''), tbl)
      | Some i \<Rightarrow>
          if i = [] then (res env 400 (failure ''Missing id''), tbl)
          else
            (case ddb_get env i tbl of
               Inl err \<Rightarrow> (res env 500 (failure (err_message err)), tbl)
             | Inr None \<Rightarrow> (res env 404 (failure ''Not found''), tbl)
             | Inr (Some it) \<Rightarrow>
                 (res env 200 (JObj [(''ok'', JBool True), (''item'', JObj it)]), tbl)))"

subsection \<open>PUT /items/{id}\<close>

text \<open>\<^verbatim>\<open>Object.keys(body).filter(k => !['pk', 'createdAt'].includes(k))\<close>.\<close>

definition allowed_keys :: "json \<Rightarrow> string list" where
  "allowed_keys b = filter (\<lambda>k. k \<notin> set [''pk'', ''createdAt'']) (Object_keys b)"

text \<open>
  The \<^verbatim>\<open>forEach\<close> over \<open>allowed\<close>: \<open>i\<close> is the index of the head of the remaining keys;
  the state is \<^verbatim>\<open>names\<close>, \<^verbatim>\<open>values\<close> and \<^verbatim>\<open>sets\<close>.
\<close>

fun forEach_allowed ::
  "json \<Rightarrow> string list \<Rightarrow> nat \<Rightarrow>
   (string \<times> string) list \<times> (string \<times> json) list \<times> string list \<Rightarrow>
   (string \<times> string) list \<times> (string \<times> json) list \<times> string list" where
  "forEach_allowed b [] i st = st"
| "forEach_allowed b (k # ks) i (names, vals, sets) =
     forEach_allowed b ks (Suc i)
       (set_prop names (''#k'' @ show_nat i) k,
        set_prop vals ('':v'' @ show_nat i) (get_prop b k),
        sets @ [''#k'' @ show_nat i @ '' = :v'' @ show_nat i])"

text \<open>The parameters of the \<^verbatim>\<open>ddb.update\<close> call, for a body with at least one allowed key.\<close>

definition update_request :: "env \<Rightarrow> string \<Rightarrow> json \<Rightarrow> update_params" where
  "update_request env i b =
     (case forEach_allowed b (allowed_keys b) 0 ([], [], []) of
        (names, vals, sets) \<Rightarrow>
          \<lparr>upd_Key = i,
           upd_UpdateExpression = ''SET '' @ join '', '' (sets @ [''#updatedAt = :updatedNow'']),
           upd_ExpressionAttributeNames = set_prop names ''#updatedAt'' ''updatedAt'',
           upd_ExpressionAttributeValues =
             set_prop vals '':updatedNow'' (JStr (toISOString env (clock env 0))),
           upd_ConditionExpression = Some ''attribute_exists(pk)''\<rparr>)"

text \<open>The \<^verbatim>\<open>catch\<close> of \<^verbatim>\<open>updateItem\<close> and \<^verbatim>\<open>deleteItem\<close>.\<close>

definition not_found_or_500 :: "env \<Rightarrow> js_error \<Rightarrow> response" where
  "not_found_or_500 env err =
     res env (if err_code err = Some ''ConditionalCheckFailedException'' then 404 else 500)
       (failure (err_message err))"

definition updateItem :: "env \<Rightarrow> event \<Rightarrow> table \<Rightarrow> response \<times> table" where
  "updateItem env ev tbl =
     (case path_id ev of
        None \<Rightarrow> (res env 400 (failure ''Missing id''), tbl)
      | Some i \<Rightarrow>
          if i = [] then (res env 400 (failure ''Missing id''), tbl)
          else
            (case parse_body env ev of
               Inl err \<Rightarrow> (not_found_or_500 env err, tbl)
             | Inr b \<Rightarrow>
                 if invalid_body b then (res env 400 (failure ''Invalid JSON body''), tbl)
                 else if length (allowed_keys b) = 0
                 then (res env 400 (failure ''No updatable fields''), tbl)
                 else
                   (case ddb_update env (update_request env i b) tbl of
                      (Inl err, tbl') \<Rightarrow> (not_found_or_500 env err, tbl')
                    | (Inr attrs, tbl') \<Rightarrow>
                        (res env 200 (JObj [(''ok'', JBool True), (''item'', JObj attrs)]),
                         tbl'))))"

subsection \<open>DELETE /items/{id}\<close>

definition deleteItem :: "env \<Rightarrow> event \<Rightarrow> table \<Rightarrow> response \<times> table" where
  "deleteItem env ev tbl =
     (case path_id ev of
        None \<Rightarrow> (res env 400 (failure ''Missing id''), tbl)
      | Some i \<Rightarrow>
          if i = [] then (res env 400 (failure ''Missing id''), tbl)
          else
            (case ddb_delete env
                    \<lparr>del_Key = i, del_ConditionExpression = Some ''attribute_exists(pk)''\<rparr> tbl of
               (Inl err, tbl') \<Rightarrow> (not_found_or_500 env err, tbl')
             | (Inr u, tbl') \<Rightarrow> (res env 204 (JObj [(''ok'', JBool True)]), tbl')))"

subsection \<open>GET /items\<close>

definition listItems :: "env \<Rightarrow> table \<Rightarrow> response \<times> table" where
  "listItems env tbl =
     (case ddb_scan env 100 tbl of
        Inl err \<Rightarrow> (res env 500 (failure (err_message err)), tbl)
      | Inr (n, its) \<Rightarrow>
          (res env 200
             (JObj [(''ok'', JBool True), (''count'', JNum (of_nat n)),
                    (''items'', JArr (map JObj its))]),
           tbl))"

section \<open>The connectivity check\<close>

text \<open>
  \<^verbatim>\<open>hello\<close> of \<^verbatim>\<open>src/api/handler.js\<close>: an unconditional put of a fixed-key item; the
  returned objects have \<^verbatim>\<open>statusCode\<close> and \<^verbatim>\<open>body\<close> only. The \<^verbatim>\<open>console.error\<close> of
  the \<^verbatim>\<open>catch\<close> writes a log line and is not part of the result.
\<close>

definition hello :: "env \<Rightarrow> table \<Rightarrow> response \<times> table" where
  "hello env tbl =
     (let item = [(''pk'', JStr ''hello''), (''ts'', JNum (of_int (clock env 0)))]
      in (case ddb_put env \<lparr>put_Item = item, put_ConditionExpression = None\<rparr> tbl of
            (Inl err, tbl') \<Rightarrow>
              (\<lparr>statusCode = 500, headers = None,
                body = JSON_stringify env (JObj [(''ok'', JBool False),
                                                 (''error'', JStr (err_message err))])\<rparr>, tbl')
          | (Inr u, tbl') \<Rightarrow>
              (\<lparr>statusCode = 200, headers = None,
                body = JSON_stringify env (JObj [(''ok'', JBool True),
                                                 (''saved'', JObj item)])\<rparr>, tbl')))"

section \<open>Sample inputs\<close>

text \<open>
  A concrete environment, used to run the handlers: the parse of a few JSON texts, a
  serialiser, a clock that advances by one millisecond per read, and the matching
  renderings of \<^verbatim>\<open>toISOString\<close>.
\<close>

definition sample_parse :: "string \<Rightarrow> string + json" where
  \<open>sample_parse s =
     (if s = ''{"name":"widget","color":"red"}''
      then Inr (JObj [(''name'', JStr ''widget''), (''color'', JStr ''red'')])
      else if s = ''{"name":"widget","pk":"mine"}''
      then Inr (JObj [(''name'', JStr ''widget''), (''pk'', JStr ''mine'')])
      else if s = ''{"name":"widget","createdAt":"1999","updatedAt":"1999"}''
      then Inr (JObj [(''name'', JStr ''widget''), (''createdAt'', JStr ''1999''),
                      (''updatedAt'', JStr ''1999'')])
      else if s = ''{"foo":"bar"}''
      then Inr (JObj [(''foo'', JStr ''bar'')])
      else if s = ''{"pk":"x","foo":"bar","createdAt":"y"}''
      then Inr (JObj [(''pk'', JStr ''x''), (''foo'', JStr ''bar''), (''createdAt'', JStr ''y'')])
      else if s = ''{"pk":"x","createdAt":"y"}''
      then Inr (JObj [(''pk'', JStr ''x''), (''createdAt'', JStr ''y'')])
      else if s = ''["a","b"]''
      then Inr (JArr [JStr ''a'', JStr ''b''])
      else if s = ''null''
      then Inr JNull
      else if s = ''{"pk = :v0, #k0":"evil"}''
      then Inr (JObj [(''pk = :v0, #k0'', JStr ''evil'')])
      else Inl ''Unexpected token'')\<close>

text \<open>
  A serialiser in the format of \<^verbatim>\<open>JSON.stringify\<close>, for values whose strings hold no
  control characters and whose numbers are integers (another number is printed as a
  fraction). A property whose value is \<^verbatim>\<open>undefined\<close> is left out of its object.
\<close>

definition quote :: "string \<Rightarrow> string" where
  \<open>quote s =
     ''"'' @ concat (map (\<lambda>c. if c = CHR ''"'' then [CHR 0x5C, CHR ''"'']
                              else if c = CHR 0x5C then [CHR 0x5C, CHR 0x5C]
                              else [c]) s) @ ''"''\<close>

definition show_int :: "int \<Rightarrow> string" where
  "show_int n = (if n < 0 then ''-'' @ show_nat (nat (- n)) else show_nat (nat n))"

definition show_rat :: "rat \<Rightarrow> string" where
  "show_rat r =
     (case quotient_of r of
        (n, d) \<Rightarrow> if d = 1 then show_int n else show_int n @ ''/'' @ show_int d)"

fun sample_stringify :: "json \<Rightarrow> string" where
  "sample_stringify JUndefined = ''null''"
| "sample_stringify JNull = ''null''"
| "sample_stringify (JBool b) = (if b then ''true'' else ''false'')"
| "sample_stringify (JNum r) = show_rat r"
| "sample_stringify (JStr s) = quote s"
| "sample_stringify (JArr xs) = ''['' @ join '','' (map sample_stringify xs) @ '']''"
| "sample_stringify (JObj kvs) =
     ''{'' @ join '',''
               (map (\<lambda>kv. quote (fst kv) @ '':'' @ sample_stringify (snd kv))
                  (filter (\<lambda>kv. snd kv \<noteq> JUndefined) kvs)) @ ''}''"

definition sample_toISOString :: "int \<Rightarrow> string" where
  "sample_toISOString t =
     (if t = 1700000000000 then ''2023-11-14T22:13:20.000Z''
      else ''2023-11-14T22:13:20.001Z'')"

definition sample_env :: env where
  "sample_env =
     \<lparr>JSON_parse = sample_parse,
      JSON_stringify = sample_stringify,
      clock = (\<lambda>n. 1700000000000 + int n),
      toISOString = sample_toISOString,
      randomUUID = Some ''3b241101-e2bb-4255-8caf-4136c566a962'',
      Math_random36 = ''0.4fzyo82mvyr'',
      store_fault = None\<rparr>"

definition sample_table :: table where
  "sample_table =
     [(''item-1'',
       [(''pk'', JStr ''item-1''), (''name'', JStr ''widget''),
        (''createdAt'', JStr ''2023-11-01T08:00:00.000Z''),
        (''updatedAt'', JStr ''2023-11-01T08:00:00.000Z'')])]"

definition sample_event :: "string option \<Rightarrow> string option \<Rightarrow> event" where
  "sample_event i s =
     \<lparr>pathParameters = (case i of None \<Rightarrow> None | Some x \<Rightarrow> Some [(''id'', x)]),
      event_body = s\<rparr>"

text \<open>
  A body without the two reserved keys, to compare an update with the update that never
  named them.
\<close>

fun strip_reserved :: "json \<Rightarrow> json" where
  "strip_reserved (JObj kvs) = JObj (filter (\<lambda>(k, v). k \<notin> set [''pk'', ''createdAt'']) kvs)"
| "strip_reserved v = v"

section \<open>Association lists and the store model\<close>

lemma set_update_subset: "set (AList.update k v al) \<subseteq> insert (k, v) (set al)"
  by (induction al) auto

lemma update_fresh_append: "k \<notin> fst ` set al \<Longrightarrow> AList.update k v al = al @ [(k, v)]"
  by (induction al) auto

lemma map_of_apply_assignments_other:
  "k \<notin> fst ` set as \<Longrightarrow> map_of (apply_assignments as it) k = map_of it k"
  unfolding apply_assignments_def
  by (induction as arbitrary: it) (auto simp: AList.update_conv')

lemma those_map_SomeD:
  "those (map f xs) = Some ys \<Longrightarrow> y \<in> set ys \<Longrightarrow> \<exists>x \<in> set xs. f x = Some y"
  by (induction xs arbitrary: ys) (auto split: option.splits)

lemma resolve_clause_name:
  "resolve_clause names vals c = Some (a, x) \<Longrightarrow> a \<in> snd ` set names"
  unfolding resolve_clause_def
  by (auto split: list.splits option.splits dest!: map_of_SomeD intro: rev_image_eqI)

text \<open>Every attribute an accepted update assigns is a value of the names map.\<close>

lemma parse_update_names:
  assumes "parse_update p = Some as"
  shows "fst ` set as \<subseteq> snd ` set (upd_ExpressionAttributeNames p)"
proof
  fix a assume "a \<in> fst ` set as"
  then obtain x where ax: "(a, x) \<in> set as" by auto
  from assms have "those (map (resolve_clause (upd_ExpressionAttributeNames p)
                         (upd_ExpressionAttributeValues p))
                    (split_on '', '' (drop 4 (upd_UpdateExpression p)))) = Some as"
    by (simp add: parse_update_def split: if_splits)
  from those_map_SomeD [OF this ax] obtain c where
    "resolve_clause (upd_ExpressionAttributeNames p) (upd_ExpressionAttributeValues p) c
       = Some (a, x)"
    by blast
  then show "a \<in> snd ` set (upd_ExpressionAttributeNames p)" by (rule resolve_clause_name)
qed

section \<open>Placeholders\<close>

lemma show_nat_not_Nil: "show_nat n \<noteq> []"
  by (subst show_nat.simps) simp

lemma digit_inj:
  "a < 10 \<Longrightarrow> b < 10 \<Longrightarrow> ''0123456789'' ! a = ''0123456789'' ! b \<Longrightarrow> a = b"
proof -
  assume "a < 10" "b < 10" and eq: "''0123456789'' ! a = ''0123456789'' ! b"
  have "distinct ''0123456789''" by simp
  moreover have "a < length ''0123456789''" "b < length ''0123456789''"
    using \<open>a < 10\<close> \<open>b < 10\<close> by simp_all
  ultimately show "a = b" using eq by (simp only: nth_eq_iff_index_eq)
qed

lemma show_nat_digits: "set (show_nat n) \<subseteq> set ''0123456789''"
proof (induction n rule: show_nat.induct)
  case (1 n)
  have d: "''0123456789'' ! k \<in> set ''0123456789''" if "k < 10" for k
    using that nth_mem [of k "''0123456789''"] by simp
  show ?case
  proof (cases "n < 10")
    case True
    then show ?thesis using d [of n] by (subst show_nat.simps) simp
  next
    case False
    have "n mod 10 < 10" by simp
    with False 1 d [of "n mod 10"] show ?thesis
      by (subst show_nat.simps) simp
  qed
qed

lemma show_nat_inj: "show_nat n = show_nat m \<Longrightarrow> n = m"
proof (induction n arbitrary: m rule: show_nat.induct)
  case (1 n)
  note eq = \<open>show_nat n = show_nat m\<close>
  show ?case
  proof (cases "n < 10")
    case n: True
    show ?thesis
    proof (cases "m < 10")
      case True
      with n eq have "''0123456789'' ! n = ''0123456789'' ! m"
        by (simp add: show_nat.simps [of n] show_nat.simps [of m])
      with n True show ?thesis by (rule digit_inj)
    next
      case False
      with n eq have "show_nat (m div 10) = []"
        by (simp add: show_nat.simps [of n] show_nat.simps [of m])
      then show ?thesis by (simp add: show_nat_not_Nil)
    qed
  next
    case n: False
    show ?thesis
    proof (cases "m < 10")
      case True
      with n eq have "show_nat (n div 10) = []"
        by (simp add: show_nat.simps [of n] show_nat.simps [of m])
      then show ?thesis by (simp add: show_nat_not_Nil)
    next
      case False
      with n eq have "show_nat (n div 10) = show_nat (m div 10)"
        and d: "''0123456789'' ! (n mod 10) = ''0123456789'' ! (m mod 10)"
        by (simp_all add: show_nat.simps [of n] show_nat.simps [of m])
      with 1 n have "n div 10 = m div 10" by blast
      moreover have "n mod 10 = m mod 10"
        using d by (intro digit_inj) simp_all
      ultimately show ?thesis by (metis div_mult_mod_eq)
    qed
  qed
qed

text \<open>
  The loop run on fresh placeholders: it appends one entry per key to each of the three
  collections.
\<close>

lemma forEach_allowed_eq:
  assumes "\<forall>j\<ge>i. ''#k'' @ show_nat j \<notin> fst ` set names"
    and "\<forall>j\<ge>i. '':v'' @ show_nat j \<notin> fst ` set vals"
  shows "forEach_allowed b ks i (names, vals, sets)
     = (names @ zip (map (\<lambda>j. ''#k'' @ show_nat j) [i..<i + length ks]) ks,
        vals @ zip (map (\<lambda>j. '':v'' @ show_nat j) [i..<i + length ks]) (map (get_prop b) ks),
        sets @ map (\<lambda>j. ''#k'' @ show_nat j @ '' = :v'' @ show_nat j) [i..<i + length ks])"
  using assms
proof (induction ks arbitrary: i names vals sets)
  case Nil
  then show ?case by simp
next
  case (Cons k ks)
  let ?names = "names @ [(''#k'' @ show_nat i, k)]"
  let ?vals = "vals @ [('':v'' @ show_nat i, get_prop b k)]"
  let ?sets = "sets @ [''#k'' @ show_nat i @ '' = :v'' @ show_nat i]"
  have n: "set_prop names (''#k'' @ show_nat i) k = ?names"
    using Cons.prems(1) by (simp add: set_prop_def update_fresh_append)
  have v: "set_prop vals ('':v'' @ show_nat i) (get_prop b k) = ?vals"
    using Cons.prems(2) by (simp add: set_prop_def update_fresh_append)
  have fn: "\<forall>j\<ge>Suc i. ''#k'' @ show_nat j \<notin> fst ` set ?names"
  proof (intro allI impI)
    fix j assume j: "Suc i \<le> j"
    then have "''#k'' @ show_nat j \<notin> fst ` set names" using Cons.prems(1) by simp
    moreover have "show_nat j \<noteq> show_nat i" using j show_nat_inj [of j i] by auto
    ultimately show "''#k'' @ show_nat j \<notin> fst ` set ?names" by simp
  qed
  have fv: "\<forall>j\<ge>Suc i. '':v'' @ show_nat j \<notin> fst ` set ?vals"
  proof (intro allI impI)
    fix j assume j: "Suc i \<le> j"
    then have "'':v'' @ show_nat j \<notin> fst ` set vals" using Cons.prems(2) by simp
    moreover have "show_nat j \<noteq> show_nat i" using j show_nat_inj [of j i] by auto
    ultimately show "'':v'' @ show_nat j \<notin> fst ` set ?vals" by simp
  qed
  have upt: "[i..<i + length (k # ks)] = i # [Suc i..<Suc i + length ks]"
  proof -
    have "[i..<Suc (i + length ks)] = i # [Suc i..<Suc (i + length ks)]"
      by (rule upt_conv_Cons) simp
    moreover have "i + length (k # ks) = Suc (i + length ks)"
      and "Suc i + length ks = Suc (i + length ks)"
      by simp_all
    ultimately show ?thesis by (simp only:)
  qed
  have "forEach_allowed b (k # ks) i (names, vals, sets)
          = forEach_allowed b ks (Suc i) (?names, ?vals, ?sets)"
    by (simp only: forEach_allowed.simps n v)
  also have "\<dots> = (?names @ zip (map (\<lambda>j. ''#k'' @ show_nat j) [Suc i..<Suc i + length ks]) ks,
        ?vals @ zip (map (\<lambda>j. '':v'' @ show_nat j) [Suc i..<Suc i + length ks])
                  (map (get_prop b) ks),
        ?sets @ map (\<lambda>j. ''#k'' @ show_nat j @ '' = :v'' @ show_nat j)
                  [Suc i..<Suc i + length ks])"
    by (rule Cons.IH [OF fn fv])
  finally show ?case unfolding upt by simp
qed

lemma update_request_explicit:
  "update_request env i b =
     \<lparr>upd_Key = i,
      upd_UpdateExpression =
        ''SET '' @ join '', ''
          (map (\<lambda>j. ''#k'' @ show_nat j @ '' = :v'' @ show_nat j) [0..<length (allowed_keys b)]
             @ [''#updatedAt = :updatedNow'']),
      upd_ExpressionAttributeNames =
        zip (map (\<lambda>j. ''#k'' @ show_nat j) [0..<length (allowed_keys b)]) (allowed_keys b)
          @ [(''#updatedAt'', ''updatedAt'')],
      upd_ExpressionAttributeValues =
        zip (map (\<lambda>j. '':v'' @ show_nat j) [0..<length (allowed_keys b)])
            (map (get_prop b) (allowed_keys b))
          @ [('':updatedNow'', JStr (toISOString env (clock env 0)))],
      upd_ConditionExpression = Some ''attribute_exists(pk)''\<rparr>"
proof -
  let ?n = "length (allowed_keys b)"
  let ?names = "zip (map (\<lambda>j. ''#k'' @ show_nat j) [0..<?n]) (allowed_keys b)"
  let ?vals = "zip (map (\<lambda>j. '':v'' @ show_nat j) [0..<?n]) (map (get_prop b) (allowed_keys b))"
  have fe: "forEach_allowed b (allowed_keys b) 0 ([], [], [])
     = (?names, ?vals, map (\<lambda>j. ''#k'' @ show_nat j @ '' = :v'' @ show_nat j) [0..<?n])"
    using forEach_allowed_eq [of 0 "[]" "[]" b "allowed_keys b" "[]"] by simp
  have "''#updatedAt'' \<notin> fst ` set ?names"
    by (auto dest!: set_zip_leftD)
  from update_fresh_append [OF this]
  have n: "set_prop ?names ''#updatedAt'' ''updatedAt'' = ?names @ [(''#updatedAt'', ''updatedAt'')]"
    by (simp only: set_prop_def)
  have "'':updatedNow'' \<notin> fst ` set ?vals"
    by (auto dest!: set_zip_leftD)
  from update_fresh_append [OF this]
  have v: "set_prop ?vals '':updatedNow'' (JStr (toISOString env (clock env 0)))
      = ?vals @ [('':updatedNow'', JStr (toISOString env (clock env 0)))]"
    by (simp only: set_prop_def)
  show ?thesis
    by (simp only: update_request_def fe prod.case n v)
qed

section \<open>The update request\<close>

lemma allowed_keys_reserved:
  "''pk'' \<notin> set (allowed_keys b)" "''createdAt'' \<notin> set (allowed_keys b)"
  by (simp_all add: allowed_keys_def)

lemma forEach_allowed_names:
  "forEach_allowed b ks i (names, vals, sets) = (names', vals', sets') \<Longrightarrow>
   snd ` set names' \<subseteq> snd ` set names \<union> set ks"
proof (induction ks arbitrary: i names vals sets)
  case Nil
  then show ?case by simp
next
  case (Cons k ks)
  from Cons.prems have
    "forEach_allowed b ks (Suc i)
       (set_prop names (''#k'' @ show_nat i) k,
        set_prop vals ('':v'' @ show_nat i) (get_prop b k),
        sets @ [''#k'' @ show_nat i @ '' = :v'' @ show_nat i]) = (names', vals', sets')"
    by simp
  from Cons.IH [OF this] have
    "snd ` set names' \<subseteq> snd ` set (set_prop names (''#k'' @ show_nat i) k) \<union> set ks" .
  moreover have
    "snd ` set (set_prop names (''#k'' @ show_nat i) k) \<subseteq> insert k (snd ` set names)"
    using set_update_subset [of "''#k'' @ show_nat i" k names] by (auto simp: set_prop_def)
  ultimately show ?case by auto
qed

lemma update_request_names:
  "snd ` set (upd_ExpressionAttributeNames (update_request env i b))
     \<subseteq> insert ''updatedAt'' (set (allowed_keys b))"
proof -
  obtain names vals sets where
    fe: "forEach_allowed b (allowed_keys b) 0 ([], [], []) = (names, vals, sets)"
    by (cases "forEach_allowed b (allowed_keys b) 0 ([], [], [])") auto
  from forEach_allowed_names [OF fe] have n: "snd ` set names \<subseteq> set (allowed_keys b)"
    by simp
  have u: "snd ` set (set_prop names ''#updatedAt'' ''updatedAt'')
             \<subseteq> insert ''updatedAt'' (snd ` set names)"
    using set_update_subset [of "''#updatedAt''" "''updatedAt''" names]
    by (auto simp: set_prop_def)
  have eq: "upd_ExpressionAttributeNames (update_request env i b)
              = set_prop names ''#updatedAt'' ''updatedAt''"
    by (simp add: update_request_def fe)
  from n u show ?thesis unfolding eq by blast
qed

lemma update_request_Key: "upd_Key (update_request env i b) = i"
  by (simp add: update_request_def split: prod.splits)

text \<open>The store call of an update leaves \<^verbatim>\<open>pk\<close> and \<^verbatim>\<open>createdAt\<close> of every item alone.\<close>

lemma ddb_update_frame:
  assumes run: "ddb_update env (update_request env i b) tbl = (out, tbl')"
    and ex: "map_of tbl k = Some it"
  shows "\<exists>it'. map_of tbl' k = Some it' \<and> map_of it' ''pk'' = map_of it ''pk''
            \<and> map_of it' ''createdAt'' = map_of it ''createdAt''"
proof (cases "tbl' = tbl")
  case True
  with ex show ?thesis by simp
next
  case False
  let ?p = "update_request env i b"
  from run False obtain as cur where
    pu: "parse_update ?p = Some as"
    and cur: "cur = (case map_of tbl i of Some it \<Rightarrow> it | None \<Rightarrow> [(''pk'', JStr i)])"
    and tbl': "tbl' = AList.update i (apply_assignments as cur) tbl"
    by (auto simp: ddb_update_def Let_def update_request_Key
             split: option.splits if_splits bool.splits)
  have "fst ` set as \<subseteq> insert ''updatedAt'' (set (allowed_keys b))"
    using parse_update_names [OF pu] update_request_names [of env i b] by blast
  then have nk: "''pk'' \<notin> fst ` set as" "''createdAt'' \<notin> fst ` set as"
    using allowed_keys_reserved [of b] by auto
  show ?thesis
  proof (cases "k = i")
    case True
    with ex cur have "cur = it" by simp
    with nk tbl' True show ?thesis
      by (simp add: AList.update_conv' map_of_apply_assignments_other)
  next
    case False
    with ex tbl' show ?thesis by (simp add: AList.update_conv')
  qed
qed

lemma updateItem_frame:
  assumes run: "updateItem env ev tbl = (r, tbl')"
    and ex: "map_of tbl k = Some it"
  shows "\<exists>it'. map_of tbl' k = Some it' \<and> map_of it' ''pk'' = map_of it ''pk''
            \<and> map_of it' ''createdAt'' = map_of it ''createdAt''"
proof (cases "tbl' = tbl")
  case True
  with ex show ?thesis by simp
next
  case False
  with run obtain i b out where "ddb_update env (update_request env i b) tbl = (out, tbl')"
    by (auto simp: updateItem_def split: option.splits if_splits sum.splits prod.splits)
  from ddb_update_frame [OF this ex] show ?thesis .
qed

text \<open>The request is built from the allowed keys and the values read under them only.\<close>

lemma forEach_allowed_cong:
  "(\<And>k. k \<in> set ks \<Longrightarrow> get_prop b k = get_prop b' k) \<Longrightarrow>
   forEach_allowed b ks i st = forEach_allowed b' ks i st"
proof (induction ks arbitrary: i st)
  case Nil
  then show ?case by simp
next
  case (Cons k ks)
  obtain names vals sets where st: "st = (names, vals, sets)" by (cases st) auto
  have "get_prop b k = get_prop b' k" using Cons.prems by simp
  moreover have "\<And>st' j. forEach_allowed b ks j st' = forEach_allowed b' ks j st'"
    using Cons.IH Cons.prems by simp
  ultimately show ?case by (simp add: st)
qed

lemma map_of_filter_key:
  "P k \<Longrightarrow> map_of (filter (\<lambda>(k', v). P k') kvs) k = map_of kvs k"
  by (induction kvs) auto

lemma strip_reserved_allowed_keys: "allowed_keys (strip_reserved b) = allowed_keys b"
proof (cases b)
  case (JObj kvs)
  have "filter (\<lambda>k. k \<notin> set [''pk'', ''createdAt''])
          (map fst (filter (\<lambda>(k, v). k \<notin> set [''pk'', ''createdAt'']) kvs))
        = filter (\<lambda>k. k \<notin> set [''pk'', ''createdAt'']) (map fst kvs)"
    by (induction kvs) auto
  with JObj show ?thesis by (simp add: allowed_keys_def Object_keys_def)
qed simp_all

lemma strip_reserved_get_prop:
  "k \<in> set (allowed_keys b) \<Longrightarrow> get_prop (strip_reserved b) k = get_prop b k"
proof (cases b)
  case (JObj kvs)
  assume "k \<in> set (allowed_keys b)"
  then have "k \<notin> set [''pk'', ''createdAt'']" by (simp add: allowed_keys_def)
  from map_of_filter_key [of "\<lambda>k. k \<notin> set [''pk'', ''createdAt'']" k kvs, OF this] JObj
  show ?thesis by (simp add: get_prop_def split: option.splits)
qed simp_all

lemma strip_reserved_invalid_body: "invalid_body (strip_reserved b) = invalid_body b"
  by (cases b) (simp_all add: invalid_body_def)

lemma strip_reserved_update_request:
  "update_request env i (strip_reserved b) = update_request env i b"
proof -
  have "forEach_allowed (strip_reserved b) (allowed_keys b) 0 ([], [], [])
          = forEach_allowed b (allowed_keys b) 0 ([], [], [])"
    by (rule forEach_allowed_cong) (rule strip_reserved_get_prop)
  then show ?thesis by (simp add: update_request_def strip_reserved_allowed_keys)
qed

lemma updateItem_strip_reserved:
  assumes "parse_body env ev = Inr b"
    and "parse_body env ev' = Inr (strip_reserved b)"
    and "path_id ev' = path_id ev"
  shows "updateItem env ev' tbl = updateItem env ev tbl"
  using assms
  by (simp add: updateItem_def strip_reserved_invalid_body strip_reserved_allowed_keys
        strip_reserved_update_request split: option.splits)

section \<open>The store reads the update expression back\<close>

lemma those_append_Some:
  "those xs = Some as \<Longrightarrow> those ys = Some bs \<Longrightarrow> those (xs @ ys) = Some (as @ bs)"
  by (induction xs arbitrary: as) (auto split: option.splits)

lemma split_acc_no_sep:
  "c0 \<notin> set s \<Longrightarrow> split_acc (c0 # sep) acc s = [rev acc @ s]"
proof (induction s arbitrary: acc)
  case Nil
  then show ?case by simp
next
  case (Cons c cs)
  then have "c \<noteq> c0" and "c0 \<notin> set cs" by auto
  then have "split_acc (c0 # sep) acc (c # cs) = split_acc (c0 # sep) (c # acc) cs" by simp
  also have "\<dots> = [rev (c # acc) @ cs]" using Cons.IH [OF \<open>c0 \<notin> set cs\<close>] .
  finally show ?case by simp
qed

lemma split_acc_piece:
  "c0 \<notin> set x \<Longrightarrow>
   split_acc (c0 # sep) acc (x @ (c0 # sep) @ rest) = (rev acc @ x) # split_acc (c0 # sep) [] rest"
proof (induction x arbitrary: acc)
  case Nil
  show ?case by simp
next
  case (Cons c cs)
  then have "c \<noteq> c0" and "c0 \<notin> set cs" by auto
  then have "split_acc (c0 # sep) acc ((c # cs) @ (c0 # sep) @ rest)
               = split_acc (c0 # sep) (c # acc) (cs @ (c0 # sep) @ rest)"
    by simp
  also have "\<dots> = (rev (c # acc) @ cs) # split_acc (c0 # sep) [] rest"
    using Cons.IH [OF \<open>c0 \<notin> set cs\<close>] .
  finally show ?case by simp
qed

lemma split_on_join:
  "xs \<noteq> [] \<Longrightarrow> \<forall>x\<in>set xs. c0 \<notin> set x \<Longrightarrow>
   split_on (c0 # sep) (join (c0 # sep) xs) = xs"
proof (induction "c0 # sep" xs rule: join.induct)
  case 1
  then show ?case by simp
next
  case (2 x)
  then show ?case by (simp add: split_on_def split_acc_no_sep)
next
  case (3 x y ys)
  then have "c0 \<notin> set x" and "split_on (c0 # sep) (join (c0 # sep) (y # ys)) = y # ys"
    by simp_all
  then show ?case
    using split_acc_piece [of c0 x sep "[]" "join (c0 # sep) (y # ys)"]
    by (simp add: split_on_def)
qed

lemma those_map_Some:
  "(\<And>x. x \<in> set xs \<Longrightarrow> f x = Some (g x)) \<Longrightarrow> those (map f xs) = Some (map g xs)"
  by (induction xs) simp_all

lemma show_nat_no_char:
  "c \<notin> set ''0123456789'' \<Longrightarrow> c \<notin> set (show_nat j)"
  using show_nat_digits [of j] by blast

text \<open>
  The store resolves the expression of \<open>update_request\<close> to the allowed keys with the
  values read under them, followed by \<^verbatim>\<open>updatedAt\<close>.
\<close>

lemma parse_update_request:
  "parse_update (update_request env i b)
     = Some (zip (allowed_keys b) (map (get_prop b) (allowed_keys b))
               @ [(''updatedAt'', JStr (toISOString env (clock env 0)))])"
proof -
  let ?ks = "allowed_keys b"
  let ?n = "length ?ks"
  let ?ph = "\<lambda>j. ''#k'' @ show_nat j"
  let ?pv = "\<lambda>j. '':v'' @ show_nat j"
  let ?cl = "\<lambda>j. ''#k'' @ show_nat j @ '' = :v'' @ show_nat j"
  let ?now = "JStr (toISOString env (clock env 0))"
  let ?names = "zip (map ?ph [0..<?n]) ?ks @ [(''#updatedAt'', ''updatedAt'')]"
  let ?vals = "zip (map ?pv [0..<?n]) (map (get_prop b) ?ks) @ [('':updatedNow'', ?now)]"
  let ?clauses = "map ?cl [0..<?n] @ [''#updatedAt = :updatedNow'']"
  let ?g = "\<lambda>j. (?ks ! j, get_prop b (?ks ! j))"
  have nc: "CHR '','' \<notin> set (show_nat j)" "CHR '' '' \<notin> set (show_nat j)" for j
    by (rule show_nat_no_char, simp)+
  have sj: "split_on '', '' (join '', '' ?clauses) = ?clauses"
    by (rule split_on_join) (auto simp: nc)
  have inj: "distinct (map ?ph [0..<?n])" "distinct (map ?pv [0..<?n])"
    by (auto simp: distinct_map inj_on_def dest: show_nat_inj)
  have look: "map_of ?names (?ph j) = Some (?ks ! j)"
       "map_of ?vals (?pv j) = Some (get_prop b (?ks ! j))" if "j < ?n" for j
  proof -
    have "map_of (zip (map ?ph [0..<?n]) ?ks) (map ?ph [0..<?n] ! j) = Some (?ks ! j)"
      using that inj(1) by (intro map_of_zip_nth) simp_all
    then show "map_of ?names (?ph j) = Some (?ks ! j)"
      using that by (simp add: map_add_def)
    have "map_of (zip (map ?pv [0..<?n]) (map (get_prop b) ?ks)) (map ?pv [0..<?n] ! j)
            = Some (map (get_prop b) ?ks ! j)"
      using that inj(2) by (intro map_of_zip_nth) simp_all
    then show "map_of ?vals (?pv j) = Some (get_prop b (?ks ! j))"
      using that by (simp add: map_add_def)
  qed
  have cl: "resolve_clause ?names ?vals (?cl j) = Some (?g j)" if "j < ?n" for j
  proof -
    have "split_on '' = '' (?ph j @ '' = '' @ ?pv j) = [?ph j, ?pv j]"
      using split_acc_piece [of "CHR '' ''" "?ph j" "''= ''" "[]" "?pv j"]
        split_acc_no_sep [of "CHR '' ''" "?pv j" "''= ''" "[]"]
      by (simp add: split_on_def nc)
    then have "split_on '' = '' (?cl j) = [?ph j, ?pv j]" by simp
    then show ?thesis
      unfolding resolve_clause_def using look [OF that] by (simp del: map_of_append)
  qed
  have zn: "map_of (zip (map ?ph [0..<?n]) ?ks) ''#updatedAt'' = None"
    by (auto simp: map_of_eq_None_iff dest!: set_zip_leftD)
  have lastn: "map_of ?names ''#updatedAt'' = Some ''updatedAt''"
    unfolding map_of_append map_add_def zn by simp
  have zv: "map_of (zip (map ?pv [0..<?n]) (map (get_prop b) ?ks)) '':updatedNow'' = None"
    by (auto simp: map_of_eq_None_iff dest!: set_zip_leftD)
  have lastv: "map_of ?vals '':updatedNow'' = Some ?now"
    unfolding map_of_append map_add_def zv by simp
  have "split_on '' = '' ''#updatedAt = :updatedNow'' = [''#updatedAt'', '':updatedNow'']"
    by (simp add: split_on_def)
  then have last: "resolve_clause ?names ?vals ''#updatedAt = :updatedNow''
      = Some (''updatedAt'', ?now)"
    unfolding resolve_clause_def using lastn lastv by (simp del: map_of_append)
  have "those (map (\<lambda>j. resolve_clause ?names ?vals (?cl j)) [0..<?n]) = Some (map ?g [0..<?n])"
  proof (rule those_map_Some)
    fix j assume "j \<in> set [0..<?n]"
    then have "j < ?n" by simp
    then show "resolve_clause ?names ?vals (?cl j) = Some (?g j)" by (rule cl)
  qed
  then have "those (map (resolve_clause ?names ?vals) (map ?cl [0..<?n]))
      = Some (map ?g [0..<?n])"
    by (simp only: map_map comp_def)
  moreover have "map ?g [0..<?n] = zip ?ks (map (get_prop b) ?ks)"
    by (rule nth_equalityI) simp_all
  ultimately have th: "those (map (resolve_clause ?names ?vals) ?clauses)
      = Some (zip ?ks (map (get_prop b) ?ks) @ [(''updatedAt'', ?now)])"
    using last by (simp add: those_append_Some)
  have e: "upd_UpdateExpression (update_request env i b) = ''SET '' @ join '', '' ?clauses"
    "upd_ExpressionAttributeNames (update_request env i b) = ?names"
    "upd_ExpressionAttributeValues (update_request env i b) = ?vals"
    by (simp_all add: update_request_explicit)
  have t4: "take 4 (''SET '' @ s) = ''SET ''" "drop 4 (''SET '' @ s) = s" for s
    by simp_all
  show ?thesis
    unfolding parse_update_def e t4 sj using th by simp
qed

lemma valid_assignments_request:
  "valid_assignments (zip ks (map f ks) @ [(''updatedAt'', x)])
     \<longleftrightarrow> distinct ks \<and> ''updatedAt'' \<notin> set ks \<and> ''pk'' \<notin> set ks"
  by (auto simp: valid_assignments_def)

text \<open>
  What the store does with the request of an update when it has no fault of its own and
  the allowed keys are pairwise distinct and do not name \<^verbatim>\<open>updatedAt\<close>: a conflict when no
  item is under the key, the assignments applied to the item otherwise.
\<close>

lemma ddb_update_request:
  assumes "store_fault env = None"
    and "distinct (allowed_keys b)" and "''updatedAt'' \<notin> set (allowed_keys b)"
  shows "ddb_update env (update_request env i b) tbl
     = (case map_of tbl i of
          None \<Rightarrow> (Inl conditional_check_failed, tbl)
        | Some it \<Rightarrow>
            (Inr (apply_assignments
                    (zip (allowed_keys b) (map (get_prop b) (allowed_keys b))
                       @ [(''updatedAt'', JStr (toISOString env (clock env 0)))]) it),
             AList.update i
               (apply_assignments
                  (zip (allowed_keys b) (map (get_prop b) (allowed_keys b))
                     @ [(''updatedAt'', JStr (toISOString env (clock env 0)))]) it) tbl))"
proof -
  have c: "upd_ConditionExpression (update_request env i b) = Some ''attribute_exists(pk)''"
    by (simp add: update_request_explicit)
  have v: "valid_assignments
             (zip (allowed_keys b) (map (get_prop b) (allowed_keys b))
                @ [(''updatedAt'', JStr (toISOString env (clock env 0)))])"
    using assms(2,3) allowed_keys_reserved(1) [of b]
    by (simp only: valid_assignments_request) simp
  show ?thesis
    unfolding ddb_update_def parse_update_request c update_request_Key
    using assms(1) v
    by (simp add: condition_holds_def Let_def split: option.splits)
qed

section \<open>Requests and responses\<close>

lemma parse_body_absent:
  "event_body ev = None \<or> event_body ev = Some [] \<Longrightarrow> parse_body env ev = Inr (JObj [])"
  by (auto simp: parse_body_def)

lemma createItem_headers: "headers (fst (createItem env ev tbl)) = Some cors_headers"
  by (simp add: createItem_def res_def Let_def split: sum.splits prod.splits)

lemma getItem_headers: "headers (fst (getItem env ev tbl)) = Some cors_headers"
  by (simp add: getItem_def res_def split: sum.splits option.splits)

lemma updateItem_headers: "headers (fst (updateItem env ev tbl)) = Some cors_headers"
  by (simp add: updateItem_def res_def not_found_or_500_def
           split: sum.splits option.splits prod.splits)

lemma deleteItem_headers: "headers (fst (deleteItem env ev tbl)) = Some cors_headers"
  by (simp add: deleteItem_def res_def not_found_or_500_def
           split: sum.splits option.splits prod.splits)

lemma listItems_headers: "headers (fst (listItems env tbl)) = Some cors_headers"
  by (simp add: listItems_def res_def split: sum.splits prod.splits)

lemma hello_headers: "headers (fst (hello env tbl)) = None"
  by (simp add: hello_def Let_def split: sum.splits prod.splits)

lemma createItem_error_shape: "statusCode (fst (createItem env ev tbl)) \<in> {200, 201, 204}
   \<or> (\<exists>msg. body (fst (createItem env ev tbl)) = JSON_stringify env (failure msg))"
  by (auto simp: createItem_def res_def Let_def split: sum.splits prod.splits)

lemma getItem_error_shape: "statusCode (fst (getItem env ev tbl)) \<in> {200, 201, 204}
   \<or> (\<exists>msg. body (fst (getItem env ev tbl)) = JSON_stringify env (failure msg))"
  by (auto simp: getItem_def res_def split: sum.splits option.splits)

lemma updateItem_error_shape: "statusCode (fst (updateItem env ev tbl)) \<in> {200, 201, 204}
   \<or> (\<exists>msg. body (fst (updateItem env ev tbl)) = JSON_stringify env (failure msg))"
  by (auto simp: updateItem_def res_def not_found_or_500_def
           split: sum.splits option.splits prod.splits)

lemma deleteItem_error_shape: "statusCode (fst (deleteItem env ev tbl)) \<in> {200, 201, 204}
   \<or> (\<exists>msg. body (fst (deleteItem env ev tbl)) = JSON_stringify env (failure msg))"
  by (auto simp: deleteItem_def res_def not_found_or_500_def
           split: sum.splits option.splits prod.splits)

lemma listItems_error_shape: "statusCode (fst (listItems env tbl)) \<in> {200, 201, 204}
   \<or> (\<exists>msg. body (fst (listItems env tbl)) = JSON_stringify env (failure msg))"
  by (auto simp: listItems_def res_def split: sum.splits prod.splits)

lemma hello_error_shape: "statusCode (fst (hello env tbl)) \<in> {200, 201, 204}
   \<or> (\<exists>msg. body (fst (hello env tbl)) = JSON_stringify env (failure msg))"
  by (auto simp: hello_def Let_def failure_def split: sum.splits prod.splits)

text \<open>The response to an error of the store call in \<^verbatim>\<open>updateItem\<close> and \<^verbatim>\<open>deleteItem\<close>.\<close>

lemma updateItem_store_error:
  assumes "path_id ev = Some i" and "i \<noteq> []" and "parse_body env ev = Inr b"
    and "\<not> invalid_body b" and "allowed_keys b \<noteq> []"
    and "ddb_update env (update_request env i b) tbl = (Inl e, tbl')"
  shows "statusCode (fst (updateItem env ev tbl))
           = (if err_code e = Some ''ConditionalCheckFailedException'' then 404 else 500)
       \<and> body (fst (updateItem env ev tbl))
           = JSON_stringify env (JObj [(''ok'', JBool False), (''error'', JStr (err_message e))])
       \<and> headers (fst (updateItem env ev tbl))
           = Some [(''Content-Type'', ''application/json''),
                   (''Access-Control-Allow-Origin'', ''*''),
                   (''Access-Control-Allow-Headers'', ''Content-Type,Authorization''),
                   (''Access-Control-Allow-Methods'', ''GET,POST,PUT,DELETE,OPTIONS'')]
       \<and> snd (updateItem env ev tbl) = tbl'"
proof -
  have "updateItem env ev tbl = (not_found_or_500 env e, tbl')"
    using assms by (simp add: updateItem_def)
  then show ?thesis
    by (simp add: not_found_or_500_def res_def failure_def cors_headers_def)
qed

lemma deleteItem_store_error:
  assumes "path_id ev = Some i" and "i \<noteq> []"
    and "ddb_delete env \<lparr>del_Key = i, del_ConditionExpression = Some ''attribute_exists(pk)''\<rparr> tbl
           = (Inl e, tbl')"
  shows "statusCode (fst (deleteItem env ev tbl))
           = (if err_code e = Some ''ConditionalCheckFailedException'' then 404 else 500)
       \<and> body (fst (deleteItem env ev tbl))
           = JSON_stringify env (JObj [(''ok'', JBool False), (''error'', JStr (err_message e))])
       \<and> headers (fst (deleteItem env ev tbl))
           = Some [(''Content-Type'', ''application/json''),
                   (''Access-Control-Allow-Origin'', ''*''),
                   (''Access-Control-Allow-Headers'', ''Content-Type,Authorization''),
                   (''Access-Control-Allow-Methods'', ''GET,POST,PUT,DELETE,OPTIONS'')]
       \<and> snd (deleteItem env ev tbl) = tbl'"
proof -
  have "deleteItem env ev tbl = (not_found_or_500 env e, tbl')"
    using assms by (simp add: deleteItem_def)
  then show ?thesis
    by (simp add: not_found_or_500_def res_def failure_def cors_headers_def)
qed

section \<open>The created item\<close>

lemma map_of_spread:
  "map_of (spread obj src) k
     = (case map_of (rev (own_entries src)) k of Some v \<Rightarrow> Some v | None \<Rightarrow> map_of obj k)"
proof -
  have "map_of (fold (\<lambda>(k, v) acc. AList.update k v acc) kvs obj) k
          = (case map_of (rev kvs) k of Some v \<Rightarrow> Some v | None \<Rightarrow> map_of obj k)" for kvs
    by (induction kvs arbitrary: obj)
       (auto simp: AList.update_conv' map_add_def split: option.splits)
  then show ?thesis by (simp add: spread_def set_prop_def)
qed

lemma new_item_createdAt:
  "map_of (new_item env b) ''createdAt'' = Some (JStr (toISOString env (clock env 0)))"
  by (simp add: new_item_def set_prop_def AList.update_conv')

lemma new_item_updatedAt:
  "map_of (new_item env b) ''updatedAt'' = Some (JStr (toISOString env (clock env 1)))"
  by (simp add: new_item_def set_prop_def AList.update_conv')

lemma new_item_pk:
  "map_of (new_item env b) ''pk''
     = (case map_of (rev (own_entries b)) ''pk'' of
          Some v \<Rightarrow> Some v
        | None \<Rightarrow> Some (JStr (randomId env)))"
  by (simp add: new_item_def set_prop_def AList.update_conv' map_of_spread
        split: option.splits)

lemma map_of_rev_distinct: "distinct (map fst kvs) \<Longrightarrow> map_of (rev kvs) = map_of kvs"
proof (induction kvs)
  case Nil
  then show ?case by simp
next
  case (Cons kv kvs)
  then have ih: "map_of (rev kvs) = map_of kvs" and fresh: "fst kv \<notin> fst ` set kvs" by simp_all
  from fresh have "map_of kvs (fst kv) = None" by (simp add: map_of_eq_None_iff)
  then show ?case
    by (cases kv) (auto simp: ih map_add_def fun_eq_iff split: option.splits)
qed

lemma new_item_pk_absent:
  "''pk'' \<notin> set (Object_keys b) \<Longrightarrow> map_of (new_item env b) ''pk'' = Some (JStr (randomId env))"
proof -
  assume "''pk'' \<notin> set (Object_keys b)"
  then have "''pk'' \<notin> fst ` set (rev (own_entries b))" by (simp add: Object_keys_def)
  then have "map_of (rev (own_entries b)) ''pk'' = None" by (rule map_of_eq_None_iff [THEN iffD2])
  then show ?thesis by (simp add: new_item_pk)
qed

lemma new_item_pk_body:
  assumes "''pk'' \<in> set (Object_keys b)" and "distinct (Object_keys b)"
  shows "map_of (new_item env b) ''pk'' = Some (get_prop b ''pk'')"
proof -
  from assms(2) have "map_of (rev (own_entries b)) = map_of (own_entries b)"
    by (simp add: Object_keys_def map_of_rev_distinct)
  moreover have "map_of (own_entries b) ''pk'' \<noteq> None"
    using assms(1) by (simp add: Object_keys_def map_of_eq_None_iff)
  then obtain v where "map_of (own_entries b) ''pk'' = Some v" by blast
  ultimately show ?thesis by (simp add: new_item_pk get_prop_def)
qed

text \<open>A 201 of \<^verbatim>\<open>createItem\<close>: the item built from the body is returned and stored.\<close>

lemma createItem_created:
  assumes "createItem env ev tbl = (r, tbl')" and "statusCode r = 201"
  shows "\<exists>b k. parse_body env ev = Inr b \<and> \<not> invalid_body b \<and> truthy (get_prop b ''name'')
           \<and> r = res env 201 (JObj [(''ok'', JBool True), (''item'', JObj (new_item env b))])
           \<and> map_of (new_item env b) ''pk'' = Some (JStr k)
           \<and> map_of tbl k = None
           \<and> tbl' = AList.update k (new_item env b) tbl"
proof (cases "parse_body env ev")
  case (Inl err)
  with assms show ?thesis by (auto simp: createItem_def res_def)
next
  case (Inr b)
  show ?thesis
  proof (cases "invalid_body b \<or> \<not> truthy (get_prop b ''name'')")
    case True
    with assms Inr show ?thesis by (auto simp: createItem_def res_def split: if_splits)
  next
    case False
    let ?p = "\<lparr>put_Item = new_item env b,
               put_ConditionExpression = Some ''attribute_not_exists(pk)''\<rparr>"
    from assms Inr False obtain u where put: "ddb_put env ?p tbl = (Inr u, tbl')"
      and r: "r = res env 201 (JObj [(''ok'', JBool True), (''item'', JObj (new_item env b))])"
      by (auto simp: createItem_def Let_def res_def split: prod.splits sum.splits)
    from put obtain k where "map_of (new_item env b) ''pk'' = Some (JStr k)"
      and "map_of tbl k = None" and "tbl' = AList.update k (new_item env b) tbl"
      by (auto simp: ddb_put_def condition_holds_def
               split: option.splits json.splits if_splits bool.splits)
    with Inr False r show ?thesis by auto
  qed
qed

section \<open>Array bodies\<close>

lemma show_nat_not_word:
  "c \<in> set w \<Longrightarrow> c \<notin> set ''0123456789'' \<Longrightarrow> show_nat j \<noteq> w"
  using show_nat_digits [of j] by auto

lemma Object_keys_array: "Object_keys (JArr xs) = map show_nat [0..<length xs]"
  by (simp add: Object_keys_def)

lemma allowed_keys_array: "allowed_keys (JArr xs) = map show_nat [0..<length xs]"
proof -
  have "show_nat j \<noteq> ''pk''" "show_nat j \<noteq> ''createdAt''" for j
    by (rule show_nat_not_word [of "CHR ''p''"], simp, simp)
       (rule show_nat_not_word [of "CHR ''c''"], simp, simp)
  then have "filter (\<lambda>k. k \<notin> set [''pk'', ''createdAt'']) (map show_nat js) = map show_nat js"
    for js
    by (induction js) simp_all
  then show ?thesis by (simp add: allowed_keys_def Object_keys_array)
qed

lemma array_has_no_name: "get_prop (JArr xs) ''name'' = JUndefined"
proof -
  have "show_nat j \<noteq> ''name''" for j
    by (rule show_nat_not_word [of "CHR ''n''"]) simp_all
  then have "''name'' \<notin> set (map show_nat [0..<length xs])" by (metis imageE set_map)
  then have m: "map_of (own_entries (JArr xs)) ''name'' = None"
    by (simp add: map_of_zip_is_None)
  show ?thesis unfolding get_prop_def m by simp
qed

section \<open>Claims\<close>

subsection \<open>C1: the primary key of a created item\<close>

text \<open>
  C1 on the code: a body that carries its own \<^verbatim>\<open>pk\<close>. The item stored and returned with
  status 201 has the caller's \<^verbatim>\<open>pk\<close>, not the identifier that \<^verbatim>\<open>randomId\<close> generated.
\<close>

theorem createItem_body_pk_replaces_generated:
  \<open>createItem sample_env (sample_event None (Some ''{"name":"widget","pk":"mine"}'')) sample_table
     = (res sample_env 201
          (JObj [(''ok'', JBool True),
                 (''item'', JObj [(''pk'', JStr ''mine''), (''name'', JStr ''widget''),
                                  (''createdAt'', JStr ''2023-11-14T22:13:20.000Z''),
                                  (''updatedAt'', JStr ''2023-11-14T22:13:20.001Z'')])]),
        sample_table
          @ [(''mine'', [(''pk'', JStr ''mine''), (''name'', JStr ''widget''),
                         (''createdAt'', JStr ''2023-11-14T22:13:20.000Z''),
                         (''updatedAt'', JStr ''2023-11-14T22:13:20.001Z'')])])
   \<and> randomId sample_env = ''3b241101-e2bb-4255-8caf-4136c566a962''
   \<and> randomId sample_env \<noteq> ''mine''\<close>
  by code_simp

subsection \<open>C2: an update keeps the primary key and the creation time\<close>

text \<open>
  C2. An update leaves \<^verbatim>\<open>pk\<close> and \<^verbatim>\<open>createdAt\<close> of an existing item as they were,
  whatever the body supplies and however the call ends: the two keys are never among the
  allowed keys, every item of the table keeps both attributes, and a request whose body
  names them is answered exactly as the request whose body has them removed, so they
  cause no error of their own.
\<close>

theorem updateItem_keeps_pk_createdAt:
  assumes "updateItem env ev tbl = (r, tbl')"
    and "map_of tbl k = Some it"
  shows "(\<exists>it'. map_of tbl' k = Some it' \<and> map_of it' ''pk'' = map_of it ''pk''
             \<and> map_of it' ''createdAt'' = map_of it ''createdAt'')
       \<and> (\<forall>b. ''pk'' \<notin> set (allowed_keys b) \<and> ''createdAt'' \<notin> set (allowed_keys b))
       \<and> (\<forall>ev' b. parse_body env ev = Inr b \<longrightarrow> parse_body env ev' = Inr (strip_reserved b)
             \<longrightarrow> path_id ev' = path_id ev \<longrightarrow> updateItem env ev' tbl = (r, tbl'))"
  using updateItem_frame [OF assms] allowed_keys_reserved updateItem_strip_reserved assms(1)
  by metis

theorem updateItem_keeps_pk_createdAt_witness:
  \<open>map_of sample_table ''item-1''
     = Some [(''pk'', JStr ''item-1''), (''name'', JStr ''widget''),
             (''createdAt'', JStr ''2023-11-01T08:00:00.000Z''),
             (''updatedAt'', JStr ''2023-11-01T08:00:00.000Z'')]
   \<and> updateItem sample_env
        (sample_event (Some ''item-1'') (Some ''{"pk":"x","foo":"bar","createdAt":"y"}''))
        sample_table
      = (res sample_env 200
           (JObj [(''ok'', JBool True),
                  (''item'', JObj [(''pk'', JStr ''item-1''), (''name'', JStr ''widget''),
                                   (''createdAt'', JStr ''2023-11-01T08:00:00.000Z''),
                                   (''updatedAt'', JStr ''2023-11-14T22:13:20.000Z''),
                                   (''foo'', JStr ''bar'')])]),
         [(''item-1'', [(''pk'', JStr ''item-1''), (''name'', JStr ''widget''),
                        (''createdAt'', JStr ''2023-11-01T08:00:00.000Z''),
                        (''updatedAt'', JStr ''2023-11-14T22:13:20.000Z''),
                        (''foo'', JStr ''bar'')])])
   \<and> updateItem sample_env (sample_event (Some ''item-1'') (Some ''{"foo":"bar"}'')) sample_table
      = updateItem sample_env
          (sample_event (Some ''item-1'') (Some ''{"pk":"x","foo":"bar","createdAt":"y"}''))
          sample_table\<close>
proof -
  let ?ev = \<open>sample_event (Some ''item-1'') (Some ''{"pk":"x","foo":"bar","createdAt":"y"}'')\<close>
  let ?ev' = \<open>sample_event (Some ''item-1'') (Some ''{"foo":"bar"}'')\<close>
  let ?it = \<open>[(''pk'', JStr ''item-1''), (''name'', JStr ''widget''),
             (''createdAt'', JStr ''2023-11-01T08:00:00.000Z''),
             (''updatedAt'', JStr ''2023-11-01T08:00:00.000Z'')]\<close>
  let ?it' = \<open>[(''pk'', JStr ''item-1''), (''name'', JStr ''widget''),
                        (''createdAt'', JStr ''2023-11-01T08:00:00.000Z''),
                        (''updatedAt'', JStr ''2023-11-14T22:13:20.000Z''),
                        (''foo'', JStr ''bar'')]\<close>
  have ex: "map_of sample_table ''item-1'' = Some ?it"
    by (simp add: sample_table_def)
  have run: "updateItem sample_env ?ev sample_table
      = (res sample_env 200 (JObj [(''ok'', JBool True), (''item'', JObj ?it')]),
         [(''item-1'', ?it')])"
    by code_simp
  have p1: \<open>parse_body sample_env ?ev
      = Inr (JObj [(''pk'', JStr ''x''), (''foo'', JStr ''bar''), (''createdAt'', JStr ''y'')])\<close>
    by code_simp
  have p2: \<open>parse_body sample_env ?ev'
      = Inr (strip_reserved (JObj [(''pk'', JStr ''x''), (''foo'', JStr ''bar''), (''createdAt'', JStr ''y'')]))\<close>
    by code_simp
  have p3: "path_id ?ev' = path_id ?ev"
    by (simp add: path_id_def sample_event_def)
  from updateItem_keeps_pk_createdAt [OF run ex] p1 p2 p3
  have "updateItem sample_env ?ev' sample_table
      = (res sample_env 200 (JObj [(''ok'', JBool True), (''item'', JObj ?it')]),
         [(''item-1'', ?it')])"
    by blast
  with ex run show ?thesis by simp
qed

subsection \<open>C3: an update without updatable fields\<close>

text \<open>
  C3. An update with a present path identifier whose body is an object with no key other
  than \<^verbatim>\<open>pk\<close> and \<^verbatim>\<open>createdAt\<close> (the absent and the empty body are read as the empty
  object) is answered 400 with \<^verbatim>\<open>No updatable fields\<close>, and the table is returned as it
  was: the test on the allowed keys precedes the construction of the update, where
  \<^verbatim>\<open>updatedAt\<close> is added, and the store call.
\<close>

theorem updateItem_no_updatable_fields:
  assumes "path_id ev = Some i" and "i \<noteq> []"
    and "parse_body env ev = Inr b" and "\<not> invalid_body b"
    and "set (Object_keys b) \<subseteq> {''pk'', ''createdAt''}"
  shows "updateItem env ev tbl = (res env 400 (failure ''No updatable fields''), tbl)"
proof -
  have "filter (\<lambda>k. k \<notin> set [''pk'', ''createdAt'']) (Object_keys b) = []"
    using assms(5) by (auto simp: filter_empty_conv)
  then have "allowed_keys b = []" by (simp add: allowed_keys_def)
  with assms(1-4) show ?thesis by (simp add: updateItem_def)
qed

theorem updateItem_no_updatable_fields_witness:
  \<open>updateItem sample_env (sample_event (Some ''item-1'') None) sample_table
     = (res sample_env 400 (failure ''No updatable fields''), sample_table)
   \<and> updateItem (sample_env\<lparr>store_fault := Some (JsError None ''socket hang up'')\<rparr>)
        (sample_event (Some ''item-1'') (Some ''{"pk":"x","createdAt":"y"}'')) sample_table
     = (res sample_env 400 (failure ''No updatable fields''), sample_table)
   \<and> body (res sample_env 400 (failure ''No updatable fields''))
     = ''{"ok":false,"error":"No updatable fields"}''\<close>
proof -
  let ?env = \<open>sample_env\<lparr>store_fault := Some (JsError None ''socket hang up'')\<rparr>\<close>
  let ?ev1 = \<open>sample_event (Some ''item-1'') None\<close>
  let ?ev2 = \<open>sample_event (Some ''item-1'') (Some ''{"pk":"x","createdAt":"y"}'')\<close>
  have i: "path_id ?ev1 = Some ''item-1''" "path_id ?ev2 = Some ''item-1''" "''item-1'' \<noteq> []"
    by (simp_all add: path_id_def sample_event_def)
  have b1: "parse_body sample_env ?ev1 = Inr (JObj [])"
    by (simp add: parse_body_def sample_event_def)
  have b2: \<open>parse_body ?env ?ev2 = Inr (JObj [(''pk'', JStr ''x''), (''createdAt'', JStr ''y'')])\<close>
    by (simp add: parse_body_def sample_event_def sample_env_def sample_parse_def)
  have v: "\<not> invalid_body (JObj [])"
      \<open>\<not> invalid_body (JObj [(''pk'', JStr ''x''), (''createdAt'', JStr ''y'')])\<close>
    by (simp_all add: invalid_body_def)
  have k: "set (Object_keys (JObj [])) \<subseteq> {''pk'', ''createdAt''}"
      \<open>set (Object_keys (JObj [(''pk'', JStr ''x''), (''createdAt'', JStr ''y'')]))
         \<subseteq> {''pk'', ''createdAt''}\<close>
    by (simp_all add: Object_keys_def)
  have r: "res ?env 400 (failure ''No updatable fields'')
             = res sample_env 400 (failure ''No updatable fields'')"
    by (simp add: res_def sample_env_def)
  have s: \<open>body (res sample_env 400 (failure ''No updatable fields''))
     = ''{"ok":false,"error":"No updatable fields"}''\<close>
    by code_simp
  from updateItem_no_updatable_fields [OF i(1) i(3) b1 v(1) k(1), of sample_table]
    updateItem_no_updatable_fields [OF i(2) i(3) b2 v(2) k(2), of sample_table] r s
  show ?thesis by simp
qed

subsection \<open>C4: store conflicts and store faults\<close>

text \<open>
  C4. In an update or a delete with a present path identifier that reaches the store,
  an error of the store call whose code is \<^verbatim>\<open>ConditionalCheckFailedException\<close> is
  answered with status 404 and any other error with status 500; in both cases the body
  is the serialisation of \<^verbatim>\<open>{ ok: false, error: err.message }\<close> with the error's own
  message, and the response carries the fixed headers.
  The store reports the conflict when no fault of its own occurs and no item is under
  the key (for an update: when, besides, the allowed keys are pairwise distinct and do
  not name \<^verbatim>\<open>updatedAt\<close>, so that the store accepts the expression).
\<close>

theorem store_conflict_404_other_fault_500:
  "(path_id ev = Some i \<and> i \<noteq> [] \<and> parse_body env ev = Inr b \<and> \<not> invalid_body b
      \<and> allowed_keys b \<noteq> [] \<and> ddb_update env (update_request env i b) tbl = (Inl e, tbl')
     \<longrightarrow> statusCode (fst (updateItem env ev tbl))
           = (if err_code e = Some ''ConditionalCheckFailedException'' then 404 else 500)
       \<and> body (fst (updateItem env ev tbl))
           = JSON_stringify env (JObj [(''ok'', JBool False), (''error'', JStr (err_message e))])
       \<and> headers (fst (updateItem env ev tbl))
           = Some [(''Content-Type'', ''application/json''),
                   (''Access-Control-Allow-Origin'', ''*''),
                   (''Access-Control-Allow-Headers'', ''Content-Type,Authorization''),
                   (''Access-Control-Allow-Methods'', ''GET,POST,PUT,DELETE,OPTIONS'')]
       \<and> snd (updateItem env ev tbl) = tbl')
   \<and> (path_id ev = Some i \<and> i \<noteq> []
      \<and> ddb_delete env \<lparr>del_Key = i, del_ConditionExpression = Some ''attribute_exists(pk)''\<rparr> tbl
          = (Inl e, tbl')
     \<longrightarrow> statusCode (fst (deleteItem env ev tbl))
           = (if err_code e = Some ''ConditionalCheckFailedException'' then 404 else 500)
       \<and> body (fst (deleteItem env ev tbl))
           = JSON_stringify env (JObj [(''ok'', JBool False), (''error'', JStr (err_message e))])
       \<and> headers (fst (deleteItem env ev tbl))
           = Some [(''Content-Type'', ''application/json''),
                   (''Access-Control-Allow-Origin'', ''*''),
                   (''Access-Control-Allow-Headers'', ''Content-Type,Authorization''),
                   (''Access-Control-Allow-Methods'', ''GET,POST,PUT,DELETE,OPTIONS'')]
       \<and> snd (deleteItem env ev tbl) = tbl')
   \<and> (store_fault env = None \<and> map_of tbl i = None
     \<longrightarrow> ddb_delete env \<lparr>del_Key = i, del_ConditionExpression = Some ''attribute_exists(pk)''\<rparr> tbl
           = (Inl conditional_check_failed, tbl))
   \<and> (store_fault env = None \<and> map_of tbl i = None
      \<and> distinct (allowed_keys b) \<and> ''updatedAt'' \<notin> set (allowed_keys b)
     \<longrightarrow> ddb_update env (update_request env i b) tbl = (Inl conditional_check_failed, tbl))
   \<and> (store_fault env = Some e
     \<longrightarrow> ddb_update env (update_request env i b) tbl = (Inl e, tbl)
       \<and> ddb_delete env \<lparr>del_Key = i, del_ConditionExpression = Some ''attribute_exists(pk)''\<rparr> tbl
           = (Inl e, tbl))
   \<and> err_code conditional_check_failed = Some ''ConditionalCheckFailedException''
   \<and> err_message conditional_check_failed = ''The conditional request failed''"
proof (intro conjI)
  show "path_id ev = Some i \<and> i \<noteq> [] \<and> parse_body env ev = Inr b \<and> \<not> invalid_body b
      \<and> allowed_keys b \<noteq> [] \<and> ddb_update env (update_request env i b) tbl = (Inl e, tbl')
     \<longrightarrow> statusCode (fst (updateItem env ev tbl))
           = (if err_code e = Some ''ConditionalCheckFailedException'' then 404 else 500)
       \<and> body (fst (updateItem env ev tbl))
           = JSON_stringify env (JObj [(''ok'', JBool False), (''error'', JStr (err_message e))])
       \<and> headers (fst (updateItem env ev tbl))
           = Some [(''Content-Type'', ''application/json''),
                   (''Access-Control-Allow-Origin'', ''*''),
                   (''Access-Control-Allow-Headers'', ''Content-Type,Authorization''),
                   (''Access-Control-Allow-Methods'', ''GET,POST,PUT,DELETE,OPTIONS'')]
       \<and> snd (updateItem env ev tbl) = tbl'"
    by (intro impI, elim conjE, rule updateItem_store_error; assumption)
next
  show "path_id ev = Some i \<and> i \<noteq> []
      \<and> ddb_delete env \<lparr>del_Key = i, del_ConditionExpression = Some ''attribute_exists(pk)''\<rparr> tbl
          = (Inl e, tbl')
     \<longrightarrow> statusCode (fst (deleteItem env ev tbl))
           = (if err_code e = Some ''ConditionalCheckFailedException'' then 404 else 500)
       \<and> body (fst (deleteItem env ev tbl))
           = JSON_stringify env (JObj [(''ok'', JBool False), (''error'', JStr (err_message e))])
       \<and> headers (fst (deleteItem env ev tbl))
           = Some [(''Content-Type'', ''application/json''),
                   (''Access-Control-Allow-Origin'', ''*''),
                   (''Access-Control-Allow-Headers'', ''Content-Type,Authorization''),
                   (''Access-Control-Allow-Methods'', ''GET,POST,PUT,DELETE,OPTIONS'')]
       \<and> snd (deleteItem env ev tbl) = tbl'"
    by (intro impI, elim conjE, rule deleteItem_store_error; assumption)
next
  show "store_fault env = None \<and> map_of tbl i = None
     \<longrightarrow> ddb_delete env \<lparr>del_Key = i, del_ConditionExpression = Some ''attribute_exists(pk)''\<rparr> tbl
           = (Inl conditional_check_failed, tbl)"
    by (simp add: ddb_delete_def condition_holds_def)
next
  show "store_fault env = None \<and> map_of tbl i = None
      \<and> distinct (allowed_keys b) \<and> ''updatedAt'' \<notin> set (allowed_keys b)
     \<longrightarrow> ddb_update env (update_request env i b) tbl = (Inl conditional_check_failed, tbl)"
    by (simp add: ddb_update_request)
next
  show "store_fault env = Some e
     \<longrightarrow> ddb_update env (update_request env i b) tbl = (Inl e, tbl)
       \<and> ddb_delete env \<lparr>del_Key = i, del_ConditionExpression = Some ''attribute_exists(pk)''\<rparr> tbl
           = (Inl e, tbl)"
    by (simp add: ddb_update_def ddb_delete_def)
next
  show "err_code conditional_check_failed = Some ''ConditionalCheckFailedException''"
    by (simp add: conditional_check_failed_def)
next
  show "err_message conditional_check_failed = ''The conditional request failed''"
    by (simp add: conditional_check_failed_def)
qed

theorem store_conflict_404_other_fault_500_witness:
  \<open>statusCode (fst (updateItem sample_env
                      (sample_event (Some ''ghost'') (Some ''{"foo":"bar"}'')) sample_table)) = 404
   \<and> body (fst (updateItem sample_env
                  (sample_event (Some ''ghost'') (Some ''{"foo":"bar"}'')) sample_table))
     = ''{"ok":false,"error":"The conditional request failed"}''
   \<and> snd (updateItem sample_env
             (sample_event (Some ''ghost'') (Some ''{"foo":"bar"}'')) sample_table) = sample_table
   \<and> statusCode (fst (deleteItem sample_env (sample_event (Some ''ghost'') None) sample_table))
     = 404
   \<and> body (fst (deleteItem sample_env (sample_event (Some ''ghost'') None) sample_table))
     = ''{"ok":false,"error":"The conditional request failed"}''
   \<and> snd (deleteItem sample_env (sample_event (Some ''ghost'') None) sample_table) = sample_table
   \<and> statusCode
        (fst (updateItem
                (sample_env\<lparr>store_fault :=
                   Some (JsError (Some ''ProvisionedThroughputExceededException'')
                           ''Rate exceeded'')\<rparr>)
                (sample_event (Some ''item-1'') (Some ''{"foo":"bar"}'')) sample_table)) = 500
   \<and> body
        (fst (updateItem
                (sample_env\<lparr>store_fault :=
                   Some (JsError (Some ''ProvisionedThroughputExceededException'')
                           ''Rate exceeded'')\<rparr>)
                (sample_event (Some ''item-1'') (Some ''{"foo":"bar"}'')) sample_table))
     = ''{"ok":false,"error":"Rate exceeded"}''
   \<and> statusCode
        (fst (deleteItem
                (sample_env\<lparr>store_fault :=
                   Some (JsError (Some ''ProvisionedThroughputExceededException'')
                           ''Rate exceeded'')\<rparr>)
                (sample_event (Some ''item-1'') None) sample_table)) = 500
   \<and> body
        (fst (deleteItem
                (sample_env\<lparr>store_fault :=
                   Some (JsError (Some ''ProvisionedThroughputExceededException'')
                           ''Rate exceeded'')\<rparr>)
                (sample_event (Some ''item-1'') None) sample_table))
     = ''{"ok":false,"error":"Rate exceeded"}''\<close>
proof -
  let ?fault = \<open>JsError (Some ''ProvisionedThroughputExceededException'') ''Rate exceeded''\<close>
  let ?env = \<open>sample_env\<lparr>store_fault := Some ?fault\<rparr>\<close>
  let ?b = \<open>JObj [(''foo'', JStr ''bar'')]\<close>
  let ?upd = \<open>\<lambda>i. sample_event (Some i) (Some ''{"foo":"bar"}'')\<close>
  let ?del = \<open>\<lambda>i. sample_event (Some i) None\<close>
  have ids: "path_id (?upd ''ghost'') = Some ''ghost''" "path_id (?del ''ghost'') = Some ''ghost''"
      "path_id (?upd ''item-1'') = Some ''item-1''" "path_id (?del ''item-1'') = Some ''item-1''"
      "''ghost'' \<noteq> []" "''item-1'' \<noteq> []"
    by (simp_all add: path_id_def sample_event_def)
  have pb: "parse_body sample_env (?upd ''ghost'') = Inr ?b"
      "parse_body ?env (?upd ''item-1'') = Inr ?b"
    by (simp_all add: parse_body_def sample_event_def sample_env_def sample_parse_def)
  have ok: "\<not> invalid_body ?b" "allowed_keys ?b \<noteq> []"
    by (simp_all add: invalid_body_def allowed_keys_def Object_keys_def)
  have nofault: "store_fault sample_env = None" "store_fault ?env = Some ?fault"
    by (simp_all add: sample_env_def)
  have absent: "map_of sample_table ''ghost'' = None"
    by (simp add: sample_table_def)
  have dk: "distinct (allowed_keys ?b)" "''updatedAt'' \<notin> set (allowed_keys ?b)"
    by (simp_all add: allowed_keys_def Object_keys_def)
  have s404: \<open>JSON_stringify sample_env
                 (JObj [(''ok'', JBool False), (''error'', JStr ''The conditional request failed'')])
               = ''{"ok":false,"error":"The conditional request failed"}''\<close>
    by code_simp
  have s500: \<open>JSON_stringify ?env (JObj [(''ok'', JBool False), (''error'', JStr ''Rate exceeded'')])
               = ''{"ok":false,"error":"Rate exceeded"}''\<close>
    by code_simp
  note inst1 = store_conflict_404_other_fault_500
    [where env = sample_env and i = "''ghost''" and b = ?b and tbl = sample_table
       and e = conditional_check_failed and tbl' = sample_table]
  note inst2 = store_conflict_404_other_fault_500
    [where env = ?env and i = "''item-1''" and b = ?b and tbl = sample_table
       and e = ?fault and tbl' = sample_table]
  have gu: "ddb_update sample_env (update_request sample_env ''ghost'' ?b) sample_table
              = (Inl conditional_check_failed, sample_table)"
    using inst1 [where ev = "?upd ''ghost''"] nofault absent dk by blast
  have gd: "ddb_delete sample_env
              \<lparr>del_Key = ''ghost'', del_ConditionExpression = Some ''attribute_exists(pk)''\<rparr>
              sample_table
              = (Inl conditional_check_failed, sample_table)"
    using inst1 [where ev = "?del ''ghost''"] nofault absent by blast
  have cc: "err_code conditional_check_failed = Some ''ConditionalCheckFailedException''"
    "err_message conditional_check_failed = ''The conditional request failed''"
    using inst1 [where ev = "?del ''ghost''"] by blast+
  have u404: "statusCode (fst (updateItem sample_env (?upd ''ghost'') sample_table)) = 404
     \<and> body (fst (updateItem sample_env (?upd ''ghost'') sample_table))
         = JSON_stringify sample_env
             (JObj [(''ok'', JBool False), (''error'', JStr ''The conditional request failed'')])
     \<and> snd (updateItem sample_env (?upd ''ghost'') sample_table) = sample_table"
    using inst1 [where ev = "?upd ''ghost''"] ids pb ok gu cc by simp
  have d404: "statusCode (fst (deleteItem sample_env (?del ''ghost'') sample_table)) = 404
     \<and> body (fst (deleteItem sample_env (?del ''ghost'') sample_table))
         = JSON_stringify sample_env
             (JObj [(''ok'', JBool False), (''error'', JStr ''The conditional request failed'')])
     \<and> snd (deleteItem sample_env (?del ''ghost'') sample_table) = sample_table"
    using inst1 [where ev = "?del ''ghost''"] ids gd cc by simp
  have fu: "ddb_update ?env (update_request ?env ''item-1'' ?b) sample_table
              = (Inl ?fault, sample_table)"
    and fd: "ddb_delete ?env
              \<lparr>del_Key = ''item-1'', del_ConditionExpression = Some ''attribute_exists(pk)''\<rparr>
              sample_table
              = (Inl ?fault, sample_table)"
    using inst2 [where ev = "?upd ''item-1''"] nofault by blast+
  have u500: "statusCode (fst (updateItem ?env (?upd ''item-1'') sample_table)) = 500
     \<and> body (fst (updateItem ?env (?upd ''item-1'') sample_table))
         = JSON_stringify ?env (JObj [(''ok'', JBool False), (''error'', JStr ''Rate exceeded'')])"
    using inst2 [where ev = "?upd ''item-1''"] ids pb ok fu by simp
  have d500: "statusCode (fst (deleteItem ?env (?del ''item-1'') sample_table)) = 500
     \<and> body (fst (deleteItem ?env (?del ''item-1'') sample_table))
         = JSON_stringify ?env (JObj [(''ok'', JBool False), (''error'', JStr ''Rate exceeded'')])"
    using inst2 [where ev = "?del ''item-1''"] ids fd by simp
  from u404 d404 u500 d500 show ?thesis
    by (simp only: s404 s500)
qed

subsection \<open>C5: a create request without a body\<close>

text \<open>
  C5 as the code has it. A create request without a body (absent, or the empty string)
  is read as the empty object: it passes the object test and fails on the missing name,
  with status 400 and the message \<^verbatim>\<open>Field "name" is required\<close>. The message
  \<^verbatim>\<open>Invalid JSON body\<close>, also with status 400, answers a body that parses to a value
  that is falsy or not of type object; the two payloads differ.
\<close>

theorem createItem_absent_body_name_required:
  \<open>(event_body ev = None \<or> event_body ev = Some []
      \<longrightarrow> createItem env ev tbl = (res env 400 (failure ''Field "name" is required''), tbl))
   \<and> (parse_body env ev = Inr b \<and> invalid_body b
      \<longrightarrow> createItem env ev tbl = (res env 400 (failure ''Invalid JSON body''), tbl))
   \<and> failure ''Field "name" is required'' \<noteq> failure ''Invalid JSON body''\<close>
proof -
  have \<open>createItem env ev tbl = (res env 400 (failure ''Field "name" is required''), tbl)\<close>
    if "event_body ev = None \<or> event_body ev = Some []"
  proof -
    have "parse_body env ev = Inr (JObj [])" using that by (rule parse_body_absent)
    then show ?thesis by (simp add: createItem_def invalid_body_def get_prop_def)
  qed
  moreover have "createItem env ev tbl = (res env 400 (failure ''Invalid JSON body''), tbl)"
    if "parse_body env ev = Inr b" "invalid_body b"
    using that by (simp add: createItem_def)
  moreover have \<open>failure ''Field "name" is required'' \<noteq> failure ''Invalid JSON body''\<close>
    by (simp add: failure_def)
  ultimately show ?thesis by blast
qed

theorem createItem_absent_body_counterexample:
  \<open>createItem sample_env (sample_event None None) sample_table
     = (res sample_env 400 (failure ''Field "name" is required''), sample_table)
   \<and> createItem sample_env (sample_event None None) sample_table
     \<noteq> (res sample_env 400 (failure ''Invalid JSON body''), sample_table)\<close>
  by code_simp

theorem createItem_absent_body_name_required_witness:
  \<open>createItem sample_env (sample_event None None) sample_table
     = (res sample_env 400 (failure ''Field "name" is required''), sample_table)
   \<and> createItem sample_env (sample_event None (Some ''null'')) sample_table
     = (res sample_env 400 (failure ''Invalid JSON body''), sample_table)\<close>
proof -
  have a: "event_body (sample_event None None) = None \<or> event_body (sample_event None None) = Some []"
    by (simp add: sample_event_def)
  have b: "parse_body sample_env (sample_event None (Some ''null'')) = Inr JNull"
    by (simp add: parse_body_def sample_event_def sample_env_def sample_parse_def)
  have c: "invalid_body JNull"
    by (simp add: invalid_body_def)
  from createItem_absent_body_name_required
         [where ev = "sample_event None None" and env = sample_env and tbl = sample_table] a
    createItem_absent_body_name_required
         [where ev = "sample_event None (Some ''null'')" and env = sample_env
            and tbl = sample_table and b = JNull] b c
  show ?thesis by blast
qed

subsection \<open>C6: headers and error bodies\<close>

text \<open>
  C6 as the code has it. Every response of the five item routes carries the fixed header
  set; a response of the connectivity check \<^verbatim>\<open>hello\<close> has a status code and a body and
  no headers. Every response of the six handlers whose status is not 200, 201 or 204 has
  the body \<^verbatim>\<open>{ ok: false, error: msg }\<close> for a message string \<open>msg\<close>.
\<close>

theorem item_routes_headers_and_error_bodies:
  "(r \<in> set [fst (createItem env ev tbl), fst (getItem env ev tbl), fst (updateItem env ev tbl),
              fst (deleteItem env ev tbl), fst (listItems env tbl)]
      \<longrightarrow> headers r
            = Some [(''Content-Type'', ''application/json''),
                    (''Access-Control-Allow-Origin'', ''*''),
                    (''Access-Control-Allow-Headers'', ''Content-Type,Authorization''),
                    (''Access-Control-Allow-Methods'', ''GET,POST,PUT,DELETE,OPTIONS'')])
   \<and> headers (fst (hello env tbl)) = None
   \<and> (r \<in> set [fst (createItem env ev tbl), fst (getItem env ev tbl),
                fst (updateItem env ev tbl), fst (deleteItem env ev tbl),
                fst (listItems env tbl), fst (hello env tbl)]
        \<and> statusCode r \<notin> {200, 201, 204}
      \<longrightarrow> (\<exists>msg. body r = JSON_stringify env (JObj [(''ok'', JBool False), (''error'', JStr msg)])))"
proof (intro conjI impI)
  assume "r \<in> set [fst (createItem env ev tbl), fst (getItem env ev tbl),
                    fst (updateItem env ev tbl), fst (deleteItem env ev tbl),
                    fst (listItems env tbl)]"
  then consider "r = fst (createItem env ev tbl)" | "r = fst (getItem env ev tbl)"
    | "r = fst (updateItem env ev tbl)" | "r = fst (deleteItem env ev tbl)"
    | "r = fst (listItems env tbl)"
    by auto
  then have "headers r = Some cors_headers"
    by cases
      (simp_all only: createItem_headers getItem_headers updateItem_headers deleteItem_headers
         listItems_headers)
  then show "headers r
            = Some [(''Content-Type'', ''application/json''),
                    (''Access-Control-Allow-Origin'', ''*''),
                    (''Access-Control-Allow-Headers'', ''Content-Type,Authorization''),
                    (''Access-Control-Allow-Methods'', ''GET,POST,PUT,DELETE,OPTIONS'')]"
    by (simp only: cors_headers_def)
next
  show "headers (fst (hello env tbl)) = None" by (rule hello_headers)
next
  assume a: "r \<in> set [fst (createItem env ev tbl), fst (getItem env ev tbl),
                fst (updateItem env ev tbl), fst (deleteItem env ev tbl),
                fst (listItems env tbl), fst (hello env tbl)]
        \<and> statusCode r \<notin> {200, 201, 204}"
  then consider "r = fst (createItem env ev tbl)" | "r = fst (getItem env ev tbl)"
    | "r = fst (updateItem env ev tbl)" | "r = fst (deleteItem env ev tbl)"
    | "r = fst (listItems env tbl)" | "r = fst (hello env tbl)"
    by auto
  then have "statusCode r \<in> {200, 201, 204}
      \<or> (\<exists>msg. body r = JSON_stringify env (failure msg))"
    by cases
      (simp_all only: createItem_error_shape getItem_error_shape updateItem_error_shape
         deleteItem_error_shape listItems_error_shape hello_error_shape)
  with a have "\<exists>msg. body r = JSON_stringify env (failure msg)" by blast
  then show "\<exists>msg. body r
      = JSON_stringify env (JObj [(''ok'', JBool False), (''error'', JStr msg)])"
    by (simp only: failure_def)
qed

theorem item_routes_headers_and_error_bodies_witness:
  \<open>fst (updateItem sample_env (sample_event (Some ''item-1'') None) sample_table)
     = \<lparr>statusCode = 400,
        headers = Some [(''Content-Type'', ''application/json''),
                        (''Access-Control-Allow-Origin'', ''*''),
                        (''Access-Control-Allow-Headers'', ''Content-Type,Authorization''),
                        (''Access-Control-Allow-Methods'', ''GET,POST,PUT,DELETE,OPTIONS'')],
        body = ''{"ok":false,"error":"No updatable fields"}''\<rparr>
   \<and> (\<exists>msg. ''{"ok":false,"error":"No updatable fields"}''
          = JSON_stringify sample_env (JObj [(''ok'', JBool False), (''error'', JStr msg)]))\<close>
proof -
  let ?r = "fst (updateItem sample_env (sample_event (Some ''item-1'') None) sample_table)"
  have run: \<open>?r = \<lparr>statusCode = 400, headers = Some cors_headers,
                   body = ''{"ok":false,"error":"No updatable fields"}''\<rparr>\<close>
    by code_simp
  have m: "?r \<in> set [fst (createItem sample_env (sample_event (Some ''item-1'') None) sample_table),
                     fst (getItem sample_env (sample_event (Some ''item-1'') None) sample_table),
                     fst (updateItem sample_env (sample_event (Some ''item-1'') None) sample_table),
                     fst (deleteItem sample_env (sample_event (Some ''item-1'') None) sample_table),
                     fst (listItems sample_env sample_table)]"
    by simp
  have m': "?r \<in> set [fst (createItem sample_env (sample_event (Some ''item-1'') None) sample_table),
                     fst (getItem sample_env (sample_event (Some ''item-1'') None) sample_table),
                     fst (updateItem sample_env (sample_event (Some ''item-1'') None) sample_table),
                     fst (deleteItem sample_env (sample_event (Some ''item-1'') None) sample_table),
                     fst (listItems sample_env sample_table),
                     fst (hello sample_env sample_table)]"
    by simp
  have st: "statusCode ?r \<notin> {200, 201, 204}"
    by (simp add: run)
  note inst = item_routes_headers_and_error_bodies
    [where r = ?r and env = sample_env and ev = "sample_event (Some ''item-1'') None"
       and tbl = sample_table]
  from inst m have hs: "headers ?r = Some [(''Content-Type'', ''application/json''),
                        (''Access-Control-Allow-Origin'', ''*''),
                        (''Access-Control-Allow-Headers'', ''Content-Type,Authorization''),
                        (''Access-Control-Allow-Methods'', ''GET,POST,PUT,DELETE,OPTIONS'')]"
    by blast
  from inst m' st have
    "\<exists>msg. body ?r = JSON_stringify sample_env (JObj [(''ok'', JBool False), (''error'', JStr msg)])"
    by blast
  with hs run show ?thesis by (simp add: cors_headers_def)
qed

theorem hello_headers_counterexample:
  \<open>hello sample_env sample_table
     = (\<lparr>statusCode = 200, headers = None,
         body = JSON_stringify sample_env
                  (JObj [(''ok'', JBool True),
                         (''saved'', JObj [(''pk'', JStr ''hello''), (''ts'', JNum 1700000000000)])])\<rparr>,
        sample_table @ [(''hello'', [(''pk'', JStr ''hello''), (''ts'', JNum 1700000000000)])])
   \<and> headers (fst (hello sample_env sample_table)) \<noteq> Some cors_headers\<close>
  by (simp add: hello_def Let_def ddb_put_def condition_holds_def sample_env_def sample_table_def)

subsection \<open>C7: the timestamps of a created item\<close>

text \<open>
  C7 on the code: a successful create during which the clock advances. \<^verbatim>\<open>createItem\<close>
  reads the clock once for \<^verbatim>\<open>createdAt\<close> and once more for \<^verbatim>\<open>updatedAt\<close>; when the second
  read returns a later millisecond, the item stored and returned with status 201 has
  two timestamp strings that are not equal to each other.
\<close>

theorem createItem_timestamps_differ:
  \<open>clock sample_env 0 = 1700000000000 \<and> clock sample_env 1 = 1700000000001
   \<and> statusCode (fst (createItem sample_env
                        (sample_event None (Some ''{"name":"widget","color":"red"}'')) [])) = 201
   \<and> body (fst (createItem sample_env
                    (sample_event None (Some ''{"name":"widget","color":"red"}'')) []))
     = ''{"ok":true,"item":{"pk":"3b241101-e2bb-4255-8caf-4136c566a962","name":"widget","color":"red","createdAt":"2023-11-14T22:13:20.000Z","updatedAt":"2023-11-14T22:13:20.001Z"}}''
   \<and> snd (createItem sample_env
             (sample_event None (Some ''{"name":"widget","color":"red"}'')) [])
     = [(''3b241101-e2bb-4255-8caf-4136c566a962'',
         [(''pk'', JStr ''3b241101-e2bb-4255-8caf-4136c566a962''),
          (''name'', JStr ''widget''), (''color'', JStr ''red''),
          (''createdAt'', JStr ''2023-11-14T22:13:20.000Z''),
          (''updatedAt'', JStr ''2023-11-14T22:13:20.001Z'')])]
   \<and> JStr ''2023-11-14T22:13:20.000Z'' \<noteq> JStr ''2023-11-14T22:13:20.001Z''\<close>
  by code_simp

subsection \<open>C8: field names are data\<close>

text \<open>
  C8. The request that an update sends to the store names a caller's key in one place
  only: as the value of the names map under the placeholder \<^verbatim>\<open>#k\<close> followed by the
  key's index. The update expression is built of the placeholders and is the same for
  any two bodies with the same number of allowed keys, whatever the keys are.
\<close>

theorem update_request_placeholders_only:
  "upd_UpdateExpression (update_request env i b)
     = ''SET '' @ join '', ''
         (map (\<lambda>j. ''#k'' @ show_nat j @ '' = :v'' @ show_nat j) [0..<length (allowed_keys b)]
            @ [''#updatedAt = :updatedNow''])
   \<and> upd_ExpressionAttributeNames (update_request env i b)
     = zip (map (\<lambda>j. ''#k'' @ show_nat j) [0..<length (allowed_keys b)]) (allowed_keys b)
         @ [(''#updatedAt'', ''updatedAt'')]
   \<and> upd_ExpressionAttributeValues (update_request env i b)
     = zip (map (\<lambda>j. '':v'' @ show_nat j) [0..<length (allowed_keys b)])
           (map (get_prop b) (allowed_keys b))
         @ [('':updatedNow'', JStr (toISOString env (clock env 0)))]
   \<and> (length (allowed_keys b') = length (allowed_keys b)
       \<longrightarrow> upd_UpdateExpression (update_request env' i' b')
             = upd_UpdateExpression (update_request env i b))
   \<and> (path_id ev = Some i \<and> i \<noteq> [] \<and> parse_body env ev = Inr b \<and> \<not> invalid_body b
        \<and> allowed_keys b \<noteq> []
       \<longrightarrow> updateItem env ev tbl
             = (case ddb_update env (update_request env i b) tbl of
                  (Inl err, tbl') \<Rightarrow> (not_found_or_500 env err, tbl')
                | (Inr attrs, tbl') \<Rightarrow>
                    (res env 200 (JObj [(''ok'', JBool True), (''item'', JObj attrs)]), tbl')))"
proof -
  have "updateItem env ev tbl
             = (case ddb_update env (update_request env i b) tbl of
                  (Inl err, tbl') \<Rightarrow> (not_found_or_500 env err, tbl')
                | (Inr attrs, tbl') \<Rightarrow>
                    (res env 200 (JObj [(''ok'', JBool True), (''item'', JObj attrs)]), tbl'))"
    if "path_id ev = Some i" "i \<noteq> []" "parse_body env ev = Inr b" "\<not> invalid_body b"
       "allowed_keys b \<noteq> []"
    using that by (simp add: updateItem_def)
  moreover have "upd_UpdateExpression (update_request env' i' b')
             = upd_UpdateExpression (update_request env i b)"
    if "length (allowed_keys b') = length (allowed_keys b)"
    using that by (simp add: update_request_explicit)
  ultimately show ?thesis
    by (simp add: update_request_explicit)
qed

theorem update_request_placeholders_only_witness:
  \<open>parse_body sample_env (sample_event (Some ''item-1'') (Some ''{"pk = :v0, #k0":"evil"}''))
     = Inr (JObj [(''pk = :v0, #k0'', JStr ''evil'')])
   \<and> upd_UpdateExpression
        (update_request sample_env ''item-1'' (JObj [(''pk = :v0, #k0'', JStr ''evil'')]))
     = ''SET #k0 = :v0, #updatedAt = :updatedNow''
   \<and> upd_ExpressionAttributeNames
        (update_request sample_env ''item-1'' (JObj [(''pk = :v0, #k0'', JStr ''evil'')]))
     = [(''#k0'', ''pk = :v0, #k0''), (''#updatedAt'', ''updatedAt'')]
   \<and> upd_UpdateExpression (update_request sample_env ''item-1'' (JObj [(''foo'', JStr ''bar'')]))
     = ''SET #k0 = :v0, #updatedAt = :updatedNow''
   \<and> updateItem sample_env
        (sample_event (Some ''item-1'') (Some ''{"pk = :v0, #k0":"evil"}'')) sample_table
     = (res sample_env 200
          (JObj [(''ok'', JBool True),
                 (''item'', JObj [(''pk'', JStr ''item-1''), (''name'', JStr ''widget''),
                                  (''createdAt'', JStr ''2023-11-01T08:00:00.000Z''),
                                  (''updatedAt'', JStr ''2023-11-14T22:13:20.000Z''),
                                  (''pk = :v0, #k0'', JStr ''evil'')])]),
        [(''item-1'', [(''pk'', JStr ''item-1''), (''name'', JStr ''widget''),
                       (''createdAt'', JStr ''2023-11-01T08:00:00.000Z''),
                       (''updatedAt'', JStr ''2023-11-14T22:13:20.000Z''),
                       (''pk = :v0, #k0'', JStr ''evil'')])])\<close>
proof -
  let ?ev = \<open>sample_event (Some ''item-1'') (Some ''{"pk = :v0, #k0":"evil"}'')\<close>
  let ?b = \<open>JObj [(''pk = :v0, #k0'', JStr ''evil'')]\<close>
  let ?b' = \<open>JObj [(''foo'', JStr ''bar'')]\<close>
  let ?it = \<open>[(''pk'', JStr ''item-1''), (''name'', JStr ''widget''),
                       (''createdAt'', JStr ''2023-11-01T08:00:00.000Z''),
                       (''updatedAt'', JStr ''2023-11-14T22:13:20.000Z''),
                       (''pk = :v0, #k0'', JStr ''evil'')]\<close>
  have i: "path_id ?ev = Some ''item-1''" "''item-1'' \<noteq> []"
    by (simp_all add: path_id_def sample_event_def)
  have pb: "parse_body sample_env ?ev = Inr ?b"
    by (simp add: parse_body_def sample_event_def sample_env_def sample_parse_def)
  have ok: "\<not> invalid_body ?b"
    by (simp add: invalid_body_def)
  have ak: "allowed_keys ?b = [''pk = :v0, #k0'']" "allowed_keys ?b' = [''foo'']"
    by (simp_all add: allowed_keys_def Object_keys_def)
  have sn: "show_nat 0 = ''0''"
    by (simp add: show_nat.simps)
  have st: "ddb_update sample_env (update_request sample_env ''item-1'' ?b) sample_table
              = (Inr ?it, [(''item-1'', ?it)])"
    by code_simp
  note inst = update_request_placeholders_only
    [where env = sample_env and i = "''item-1''" and b = ?b and ev = ?ev and tbl = sample_table
       and env' = sample_env and i' = "''item-1''" and b' = ?b']
  from inst have "upd_UpdateExpression (update_request sample_env ''item-1'' ?b)
       = ''SET #k0 = :v0, #updatedAt = :updatedNow''"
    and "upd_ExpressionAttributeNames (update_request sample_env ''item-1'' ?b)
       = [(''#k0'', ''pk = :v0, #k0''), (''#updatedAt'', ''updatedAt'')]"
    by (simp_all add: ak sn)
  moreover from inst ak have "upd_UpdateExpression (update_request sample_env ''item-1'' ?b')
       = upd_UpdateExpression (update_request sample_env ''item-1'' ?b)"
    by simp
  moreover from inst i pb ok ak have "updateItem sample_env ?ev sample_table
       = (res sample_env 200 (JObj [(''ok'', JBool True), (''item'', JObj ?it)]),
          [(''item-1'', ?it)])"
    by (simp add: st)
  ultimately show ?thesis using pb by simp
qed

subsection \<open>C9: the server timestamps win over the body\<close>

text \<open>
  C9. In a successful create, \<^verbatim>\<open>createdAt\<close> and \<^verbatim>\<open>updatedAt\<close> of the stored and returned
  item are the renderings of the server's two clock reads, whatever the body holds under
  those keys: both are set after the body's properties. \<^verbatim>\<open>pk\<close> is set before them, so
  the generated identifier stays only when the body has no \<^verbatim>\<open>pk\<close>; a \<^verbatim>\<open>pk\<close> of the
  body replaces it.
\<close>

theorem createItem_server_timestamps_win:
  assumes "createItem env ev tbl = (r, tbl')" and "statusCode r = 201"
  shows "\<exists>b it k. parse_body env ev = Inr b
           \<and> r = res env 201 (JObj [(''ok'', JBool True), (''item'', JObj it)])
           \<and> map_of tbl' k = Some it
           \<and> map_of it ''createdAt'' = Some (JStr (toISOString env (clock env 0)))
           \<and> map_of it ''updatedAt'' = Some (JStr (toISOString env (clock env 1)))
           \<and> (''pk'' \<notin> set (Object_keys b)
                \<longrightarrow> map_of it ''pk'' = Some (JStr (randomId env)))
           \<and> (''pk'' \<in> set (Object_keys b) \<and> distinct (Object_keys b)
                \<longrightarrow> map_of it ''pk'' = Some (get_prop b ''pk''))"
proof -
  from createItem_created [OF assms] obtain b k where
    b: "parse_body env ev = Inr b"
    and r: "r = res env 201 (JObj [(''ok'', JBool True), (''item'', JObj (new_item env b))])"
    and t: "tbl' = AList.update k (new_item env b) tbl"
    by blast
  from t have "map_of tbl' k = Some (new_item env b)" by (simp add: AList.update_conv')
  with b r show ?thesis
    using new_item_createdAt [of env b] new_item_updatedAt [of env b]
      new_item_pk_absent [of b env] new_item_pk_body [of b env]
    by blast
qed

theorem createItem_server_timestamps_win_witness:
  \<open>createItem sample_env
      (sample_event None (Some ''{"name":"widget","createdAt":"1999","updatedAt":"1999"}'')) []
     = (res sample_env 201
          (JObj [(''ok'', JBool True),
                 (''item'', JObj [(''pk'', JStr ''3b241101-e2bb-4255-8caf-4136c566a962''),
                                  (''name'', JStr ''widget''),
                                  (''createdAt'', JStr ''2023-11-14T22:13:20.000Z''),
                                  (''updatedAt'', JStr ''2023-11-14T22:13:20.001Z'')])]),
        [(''3b241101-e2bb-4255-8caf-4136c566a962'',
          [(''pk'', JStr ''3b241101-e2bb-4255-8caf-4136c566a962''),
           (''name'', JStr ''widget''),
           (''createdAt'', JStr ''2023-11-14T22:13:20.000Z''),
           (''updatedAt'', JStr ''2023-11-14T22:13:20.001Z'')])])
   \<and> map_of [(''pk'', JStr ''3b241101-e2bb-4255-8caf-4136c566a962''),
              (''name'', JStr ''widget''),
              (''createdAt'', JStr ''2023-11-14T22:13:20.000Z''),
              (''updatedAt'', JStr ''2023-11-14T22:13:20.001Z'')] ''createdAt''
       = Some (JStr (toISOString sample_env (clock sample_env 0)))
   \<and> map_of [(''pk'', JStr ''3b241101-e2bb-4255-8caf-4136c566a962''),
              (''name'', JStr ''widget''),
              (''createdAt'', JStr ''2023-11-14T22:13:20.000Z''),
              (''updatedAt'', JStr ''2023-11-14T22:13:20.001Z'')] ''updatedAt''
       = Some (JStr (toISOString sample_env (clock sample_env 1)))
   \<and> map_of [(''pk'', JStr ''3b241101-e2bb-4255-8caf-4136c566a962''),
              (''name'', JStr ''widget''),
              (''createdAt'', JStr ''2023-11-14T22:13:20.000Z''),
              (''updatedAt'', JStr ''2023-11-14T22:13:20.001Z'')] ''pk''
       = Some (JStr (randomId sample_env))
   \<and> createItem sample_env (sample_event None (Some ''{"name":"widget","pk":"mine"}'')) []
     = (res sample_env 201
          (JObj [(''ok'', JBool True),
                 (''item'', JObj [(''pk'', JStr ''mine''), (''name'', JStr ''widget''),
                                  (''createdAt'', JStr ''2023-11-14T22:13:20.000Z''),
                                  (''updatedAt'', JStr ''2023-11-14T22:13:20.001Z'')])]),
        [(''mine'', [(''pk'', JStr ''mine''), (''name'', JStr ''widget''),
                     (''createdAt'', JStr ''2023-11-14T22:13:20.000Z''),
                     (''updatedAt'', JStr ''2023-11-14T22:13:20.001Z'')])])
   \<and> map_of [(''pk'', JStr ''mine''), (''name'', JStr ''widget''),
              (''createdAt'', JStr ''2023-11-14T22:13:20.000Z''),
              (''updatedAt'', JStr ''2023-11-14T22:13:20.001Z'')] ''pk''
       = Some (get_prop (JObj [(''name'', JStr ''widget''), (''pk'', JStr ''mine'')]) ''pk'')\<close>
proof -
  let ?ev = \<open>sample_event None (Some ''{"name":"widget","createdAt":"1999","updatedAt":"1999"}'')\<close>
  let ?b = \<open>JObj [(''name'', JStr ''widget''), (''createdAt'', JStr ''1999''),
                  (''updatedAt'', JStr ''1999'')]\<close>
  let ?it = \<open>[(''pk'', JStr ''3b241101-e2bb-4255-8caf-4136c566a962''),
           (''name'', JStr ''widget''),
           (''createdAt'', JStr ''2023-11-14T22:13:20.000Z''),
           (''updatedAt'', JStr ''2023-11-14T22:13:20.001Z'')]\<close>
  let ?ev2 = \<open>sample_event None (Some ''{"name":"widget","pk":"mine"}'')\<close>
  let ?b2 = \<open>JObj [(''name'', JStr ''widget''), (''pk'', JStr ''mine'')]\<close>
  let ?it2 = \<open>[(''pk'', JStr ''mine''), (''name'', JStr ''widget''),
              (''createdAt'', JStr ''2023-11-14T22:13:20.000Z''),
              (''updatedAt'', JStr ''2023-11-14T22:13:20.001Z'')]\<close>
  have pb: "parse_body sample_env ?ev = Inr ?b" "parse_body sample_env ?ev2 = Inr ?b2"
    by (simp_all add: parse_body_def sample_event_def sample_env_def sample_parse_def)
  have keys: "''pk'' \<notin> set (Object_keys ?b)"
      "''pk'' \<in> set (Object_keys ?b2) \<and> distinct (Object_keys ?b2)"
    by (simp_all add: Object_keys_def)
  have run: "createItem sample_env ?ev []
     = (res sample_env 201 (JObj [(''ok'', JBool True), (''item'', JObj ?it)]),
        [(''3b241101-e2bb-4255-8caf-4136c566a962'', ?it)])"
    by code_simp
  have run2: "createItem sample_env ?ev2 []
     = (res sample_env 201 (JObj [(''ok'', JBool True), (''item'', JObj ?it2)]),
        [(''mine'', ?it2)])"
    by code_simp
  have st: "statusCode (res sample_env 201 d) = 201" for d
    by (simp add: res_def)
  from createItem_server_timestamps_win [OF run st] obtain b it k where
    "parse_body sample_env ?ev = Inr b"
    and "map_of [(''3b241101-e2bb-4255-8caf-4136c566a962'', ?it)] k = Some it"
    and ts: "map_of it ''createdAt'' = Some (JStr (toISOString sample_env (clock sample_env 0)))"
            "map_of it ''updatedAt'' = Some (JStr (toISOString sample_env (clock sample_env 1)))"
    and pk: "''pk'' \<notin> set (Object_keys b)
               \<longrightarrow> map_of it ''pk'' = Some (JStr (randomId sample_env))"
    by blast
  then have "b = ?b" and "it = ?it"
    by (simp_all add: pb split: if_splits)
  with ts pk keys(1) have one:
    "map_of ?it ''createdAt'' = Some (JStr (toISOString sample_env (clock sample_env 0)))"
    "map_of ?it ''updatedAt'' = Some (JStr (toISOString sample_env (clock sample_env 1)))"
    "map_of ?it ''pk'' = Some (JStr (randomId sample_env))"
    by blast+
  from createItem_server_timestamps_win [OF run2 st] obtain b it k where
    "parse_body sample_env ?ev2 = Inr b"
    and "map_of [(''mine'', ?it2)] k = Some it"
    and pk2: "''pk'' \<in> set (Object_keys b) \<and> distinct (Object_keys b)
               \<longrightarrow> map_of it ''pk'' = Some (get_prop b ''pk'')"
    by blast
  then have "b = ?b2" and "it = ?it2"
    by (simp_all add: pb split: if_splits)
  with pk2 keys(2) have two: "map_of ?it2 ''pk'' = Some (get_prop ?b2 ''pk'')"
    by blast
  from run run2 one two show ?thesis by (intro conjI)
qed

subsection \<open>C10: array bodies\<close>

text \<open>
  C10. A body that parses to a JSON array passes the non-null-object test of both
  handlers. \<^verbatim>\<open>createItem\<close> then rejects it for the missing name, not as an invalid
  body. In \<^verbatim>\<open>updateItem\<close> the indices of a non-empty array are the allowed keys, they
  are sent to the store as the attribute names of the update, and the response is the
  outcome of the store call.
\<close>

theorem array_body_passes_object_test:
  \<open>\<not> invalid_body (JArr xs)
   \<and> (parse_body env ev = Inr (JArr xs)
       \<longrightarrow> createItem env ev tbl = (res env 400 (failure ''Field "name" is required''), tbl))
   \<and> allowed_keys (JArr xs) = map show_nat [0..<length xs]
   \<and> upd_ExpressionAttributeNames (update_request env i (JArr xs))
     = zip (map (\<lambda>j. ''#k'' @ show_nat j) [0..<length xs]) (map show_nat [0..<length xs])
         @ [(''#updatedAt'', ''updatedAt'')]
   \<and> (xs \<noteq> [] \<and> path_id ev = Some i \<and> i \<noteq> [] \<and> parse_body env ev = Inr (JArr xs)
       \<longrightarrow> updateItem env ev tbl
             = (case ddb_update env (update_request env i (JArr xs)) tbl of
                  (Inl err, tbl') \<Rightarrow> (not_found_or_500 env err, tbl')
                | (Inr attrs, tbl') \<Rightarrow>
                    (res env 200 (JObj [(''ok'', JBool True), (''item'', JObj attrs)]), tbl')))\<close>
proof -
  have v: "\<not> invalid_body (JArr xs)" by (simp add: invalid_body_def)
  have c: \<open>createItem env ev tbl = (res env 400 (failure ''Field "name" is required''), tbl)\<close>
    if "parse_body env ev = Inr (JArr xs)"
    using that v by (simp add: createItem_def array_has_no_name)
  have n: "upd_ExpressionAttributeNames (update_request env i (JArr xs))
     = zip (map (\<lambda>j. ''#k'' @ show_nat j) [0..<length xs]) (map show_nat [0..<length xs])
         @ [(''#updatedAt'', ''updatedAt'')]"
    by (simp add: update_request_explicit allowed_keys_array)
  have u: "updateItem env ev tbl
             = (case ddb_update env (update_request env i (JArr xs)) tbl of
                  (Inl err, tbl') \<Rightarrow> (not_found_or_500 env err, tbl')
                | (Inr attrs, tbl') \<Rightarrow>
                    (res env 200 (JObj [(''ok'', JBool True), (''item'', JObj attrs)]), tbl'))"
    if "xs \<noteq> []" "path_id ev = Some i" "i \<noteq> []" "parse_body env ev = Inr (JArr xs)"
    using that v by (simp add: updateItem_def allowed_keys_array)
  from v c n u allowed_keys_array [of xs] show ?thesis by blast
qed

theorem array_body_passes_object_test_witness:
  \<open>parse_body sample_env (sample_event (Some ''item-1'') (Some ''["a","b"]''))
     = Inr (JArr [JStr ''a'', JStr ''b''])
   \<and> createItem sample_env (sample_event (Some ''item-1'') (Some ''["a","b"]'')) sample_table
     = (res sample_env 400 (failure ''Field "name" is required''), sample_table)
   \<and> updateItem sample_env (sample_event (Some ''item-1'') (Some ''["a","b"]'')) sample_table
     = (res sample_env 200
          (JObj [(''ok'', JBool True),
                 (''item'', JObj [(''pk'', JStr ''item-1''), (''name'', JStr ''widget''),
                                  (''createdAt'', JStr ''2023-11-01T08:00:00.000Z''),
                                  (''updatedAt'', JStr ''2023-11-14T22:13:20.000Z''),
                                  (''0'', JStr ''a''), (''1'', JStr ''b'')])]),
        [(''item-1'', [(''pk'', JStr ''item-1''), (''name'', JStr ''widget''),
                       (''createdAt'', JStr ''2023-11-01T08:00:00.000Z''),
                       (''updatedAt'', JStr ''2023-11-14T22:13:20.000Z''),
                       (''0'', JStr ''a''), (''1'', JStr ''b'')])])\<close>
proof -
  let ?ev = \<open>sample_event (Some ''item-1'') (Some ''["a","b"]'')\<close>
  let ?xs = \<open>[JStr ''a'', JStr ''b'']\<close>
  let ?it = \<open>[(''pk'', JStr ''item-1''), (''name'', JStr ''widget''),
                       (''createdAt'', JStr ''2023-11-01T08:00:00.000Z''),
                       (''updatedAt'', JStr ''2023-11-14T22:13:20.000Z''),
                       (''0'', JStr ''a''), (''1'', JStr ''b'')]\<close>
  have i: "path_id ?ev = Some ''item-1''" "''item-1'' \<noteq> []" "?xs \<noteq> []"
    by (simp_all add: path_id_def sample_event_def)
  have pb: "parse_body sample_env ?ev = Inr (JArr ?xs)"
    by (simp add: parse_body_def sample_event_def sample_env_def sample_parse_def)
  have st: "ddb_update sample_env (update_request sample_env ''item-1'' (JArr ?xs)) sample_table
              = (Inr ?it, [(''item-1'', ?it)])"
    by code_simp
  note inst = array_body_passes_object_test
    [where env = sample_env and i = "''item-1''" and xs = ?xs and ev = ?ev and tbl = sample_table]
  from inst pb have
    \<open>createItem sample_env ?ev sample_table
       = (res sample_env 400 (failure ''Field "name" is required''), sample_table)\<close>
    by blast
  moreover from inst i pb have "updateItem sample_env ?ev sample_table
       = (case ddb_update sample_env (update_request sample_env ''item-1'' (JArr ?xs)) sample_table of
            (Inl err, tbl') \<Rightarrow> (not_found_or_500 sample_env err, tbl')
          | (Inr attrs, tbl') \<Rightarrow>
              (res sample_env 200 (JObj [(''ok'', JBool True), (''item'', JObj attrs)]), tbl'))"
    by blast
  ultimately show ?thesis using pb by (simp add: st)
qed

end
